theory Spec2Isabelle
  imports Main "HOL-Library.AList"
begin

section \<open>JavaScript values\<close>

text \<open>
  The values that flow through the library: request bodies, query-string mappings, documents
  and query descriptors. An object is an association list in insertion order; a property
  read is \<open>map_of\<close>, a property write is \<open>AList.update\<close> (in place when the key is
  there, appended otherwise). Numbers are only passed along, never computed with; the
  integers and NaN are kept. Properties inherited from a prototype are not represented:
  a property name is an own key or absent.
\<close>

datatype jsval =
    JUndefined
  | JNull
  | JBool bool
  | JNum int
  | JNaN
  | JStr string
  | JArr "jsval list"
  | JObj "(string \<times> jsval) list"

type_synonym obj = "(string \<times> jsval) list"

datatype jstype = TUndefined | TObject | TBoolean | TNumber | TString

fun typeof :: "jsval \<Rightarrow> jstype" where
  "typeof JUndefined = TUndefined"
| "typeof JNull = TObject"
| "typeof (JBool b) = TBoolean"
| "typeof (JNum n) = TNumber"
| "typeof JNaN = TNumber"
| "typeof (JStr s) = TString"
| "typeof (JArr xs) = TObject"
| "typeof (JObj kvs) = TObject"

text \<open>Truthiness, as \<open>if (v)\<close>, \<open>!v\<close> and \<open>v || w\<close> read a value.\<close>

fun truthy :: "jsval \<Rightarrow> bool" where
  "truthy JUndefined = False"
| "truthy JNull = False"
| "truthy (JBool b) = b"
| "truthy (JNum n) = (n \<noteq> 0)"
| "truthy JNaN = False"
| "truthy (JStr s) = (s \<noteq> [])"
| "truthy (JArr xs) = True"
| "truthy (JObj kvs) = True"

definition js_or :: "jsval \<Rightarrow> jsval \<Rightarrow> jsval" where
  "js_or a b = (if truthy a then a else b)"

definition js_not :: "jsval \<Rightarrow> jsval" where
  "js_not v = JBool (\<not> truthy v)"

fun instanceof_Array :: "jsval \<Rightarrow> bool" where
  "instanceof_Array (JArr xs) = True"
| "instanceof_Array v = False"

fun instanceof_Object :: "jsval \<Rightarrow> bool" where
  "instanceof_Object (JArr xs) = True"
| "instanceof_Object (JObj kvs) = True"
| "instanceof_Object v = False"

text \<open>\<open>o[k]\<close> on a value that is not null or undefined.\<close>

fun getp :: "jsval \<Rightarrow> string \<Rightarrow> jsval" where
  "getp (JObj kvs) k = (case map_of kvs k of Some v \<Rightarrow> v | None \<Rightarrow> JUndefined)"
| "getp v k = JUndefined"

section \<open>Errors\<close>

text \<open>
  An error object: its name, its message, and the two properties a status is attached
  under in this code, \<open>status\<close> and \<open>statusCode\<close>.
\<close>

record jserror =
  err_name :: string
  err_message :: string
  err_status :: "int option"
  err_statusCode :: "int option"

definition mkError :: "string \<Rightarrow> string \<Rightarrow> jserror" where
  "mkError n m = \<lparr>err_name = n, err_message = m, err_status = None, err_statusCode = None\<rparr>"

text \<open>\<open>class NotFoundError extends Error\<close>\<close>

definition NotFoundError :: jserror where
  "NotFoundError = (mkError ''Not Found'' ''Document Not Found'')\<lparr>err_statusCode := Some 404\<rparr>"

text \<open>
  \<open>o[k] = v\<close>. The file is in strict mode: the write throws a TypeError on null and
  undefined, and on a primitive. An array keeps its elements (its named properties are not
  represented).
\<close>

fun setp :: "string \<Rightarrow> jsval \<Rightarrow> jsval \<Rightarrow> jserror + jsval" where
  "setp k v (JObj kvs) = Inr (JObj (AList.update k v kvs))"
| "setp k v (JArr xs) = Inr (JArr xs)"
| "setp k v w = Inl (mkError ''TypeError'' ''Cannot set property'')"

section \<open>Built-in functions taken as parameters\<close>

text \<open>
  \<open>String(v)\<close>, \<open>Number(v)\<close> and \<open>JSON.parse(s)\<close> belong to the language, not to
  the library; the query parser is stated for any such functions. \<open>JSON_parse\<close> gives
  \<open>None\<close> where \<open>JSON.parse\<close> throws.
\<close>

record builtins =
  js_String :: "jsval \<Rightarrow> string"
  js_Number :: "jsval \<Rightarrow> jsval"
  JSON_parse :: "string \<Rightarrow> jsval option"

section \<open>Query parser\<close>

text \<open>
  \<open>parseQueryOptions\<close>: the three formatters, visited in the order of the object
  literal; a formatter runs only when \<open>typeof query[key] !== 'undefined'\<close>.
\<close>

definition formatters :: "builtins \<Rightarrow> (string \<times> (jsval \<Rightarrow> jsval \<Rightarrow> jsval)) list" where
  "formatters B =
    [(''sort'', \<lambda>value q. JStr (js_String B value)),
     (''skip'', \<lambda>value q. js_Number B (js_or value (getp q ''start''))),
     (''limit'', \<lambda>value q. js_Number B value)]"

definition parseQueryOptions :: "builtins \<Rightarrow> jsval \<Rightarrow> obj" where
  "parseQueryOptions B query =
    fold (\<lambda>(key, val) options.
            if typeof (getp query key) \<noteq> TUndefined
            then AList.update key (val (getp query key) query) options
            else options)
         (formatters B) []"

definition parseJSON :: "builtins \<Rightarrow> string \<Rightarrow> jsval" where
  "parseJSON B str = (case JSON_parse B str of Some v \<Rightarrow> v | None \<Rightarrow> JObj [])"

definition parseQueryFilter :: "builtins \<Rightarrow> jsval \<Rightarrow> jsval" where
  "parseQueryFilter B query =
    (if getp query ''filter'' \<noteq> JNull then
       (case typeof (getp query ''filter'') of
          TObject \<Rightarrow> getp query ''filter''
        | TString \<Rightarrow> (case getp query ''filter'' of JStr s \<Rightarrow> parseJSON B s | v \<Rightarrow> JObj [])
        | _ \<Rightarrow> JObj [])
     else JObj [])"

text \<open>\<open>JSON.parse\<close> reads its argument through \<open>String\<close>.\<close>

definition parseQueryPopulate :: "builtins \<Rightarrow> jsval \<Rightarrow> jsval" where
  "parseQueryPopulate B query =
    (if truthy (getp query ''populate'') then
       (case JSON_parse B (js_String B (getp query ''populate'')) of
          Some v \<Rightarrow> v
        | None \<Rightarrow> getp query ''populate'')
     else JUndefined)"

definition parseQueryProjection :: "builtins \<Rightarrow> jsval \<Rightarrow> jsval" where
  "parseQueryProjection B query =
    (let projection = js_or (getp query ''projection'') JNull in
     if truthy projection then
       (case JSON_parse B (js_String B projection) of
          Some v \<Rightarrow> v
        | None \<Rightarrow> projection)
     else projection)"

definition parseQuery :: "builtins \<Rightarrow> jsval \<Rightarrow> jsval" where
  "parseQuery B query =
    JObj [(''filter'', parseQueryFilter B query),
          (''populate'', parseQueryPopulate B query),
          (''options'', JObj (parseQueryOptions B query)),
          (''projection'', parseQueryProjection B query)]"

section \<open>Requests, hooks and the model wrapper\<close>

text \<open>
  The request as the handlers read it; the response object as the callbacks may change it
  is an opaque value.
\<close>

record req =
  req_body :: jsval
  req_query :: obj
  req_params :: obj

text \<open>What a hook is called with: \<open>hook(req, res, data)\<close>.\<close>

record hargs =
  h_req :: req
  h_res :: jsval
  h_data :: jsval

text \<open>
  A callback changes what it is given by reference, or throws. The one callback the
  library registers itself (in \<open>setupModel\<close>) reads the wrapper's hidden list when
  it runs, so it is a constructor of its own.
\<close>

datatype hook = Callback "hargs \<Rightarrow> jserror + hargs" | HideFields

datatype phase = Pre | Post

text \<open>
  The \<open>action\<close> argument of \<open>addHook\<close>: a name, or an array. The tables of
  hooks and of middlewares are keyed by name; a name is a key of the table or absent from
  it (the names every object inherits, such as \<open>constructor\<close>, are not action names).
\<close>

datatype action = AName string | AList "action list"

fun join :: "string \<Rightarrow> string list \<Rightarrow> string" where
  "join sep [] = []"
| "join sep [x] = x"
| "join sep (x # y # ys) = x @ sep @ join sep (y # ys)"

text \<open>An array used as a property key is read through \<open>toString\<close>: its elements joined by commas.\<close>

fun actionKey :: "action \<Rightarrow> string" where
  "actionKey (AName s) = s"
| "actionKey (AList xs) = join '','' (map actionKey xs)"

record descriptor =
  name :: string
  exposeName :: string

datatype mw_result = Continue req jsval | Responded jsval | Failed jserror

type_synonym middleware = "req \<Rightarrow> jsval \<Rightarrow> mw_result"

record wrapper =
  modelName :: string
  hooks :: "phase \<Rightarrow> string \<Rightarrow> hook list option"
  middlewares :: "string \<Rightarrow> middleware option"
  methods :: "descriptor list"
  statics :: "descriptor list"
  hidden :: "string list"

text \<open>\<open>constructor(model)\<close>, for a model name.\<close>

definition ModelWrapper :: "string \<Rightarrow> wrapper" where
  "ModelWrapper n =
    \<lparr>modelName = n, hooks = (\<lambda>ty a. None), middlewares = (\<lambda>a. None),
     methods = [], statics = [], hidden = []\<rparr>"

subsection \<open>Field hiding\<close>

text \<open>\<open>const removeHidden = (doc) => modelWrapper.hidden.forEach(field => doc[field] = undefined)\<close>\<close>

fun removeHidden :: "string list \<Rightarrow> jsval \<Rightarrow> jserror + jsval" where
  "removeHidden [] doc = Inr doc"
| "removeHidden (field # fs) doc =
    (case setp field JUndefined doc of
       Inl e \<Rightarrow> Inl e
     | Inr doc' \<Rightarrow> removeHidden fs doc')"

text \<open>\<open>data.forEach(removeHidden)\<close>\<close>

fun forEach_removeHidden :: "string list \<Rightarrow> jsval list \<Rightarrow> jserror + jsval list" where
  "forEach_removeHidden hs [] = Inr []"
| "forEach_removeHidden hs (d # ds) =
    (case removeHidden hs d of
       Inl e \<Rightarrow> Inl e
     | Inr d' \<Rightarrow>
        (case forEach_removeHidden hs ds of
           Inl e \<Rightarrow> Inl e
         | Inr ds' \<Rightarrow> Inr (d' # ds')))"

text \<open>The body of the callback that \<open>setupModel\<close> registers.\<close>

definition hideFields :: "string list \<Rightarrow> jsval \<Rightarrow> jserror + jsval" where
  "hideFields hs data =
    (if truthy data \<and> length hs \<noteq> 0 then
       (case data of
          JArr ds \<Rightarrow>
            (case forEach_removeHidden hs ds of Inl e \<Rightarrow> Inl e | Inr ds' \<Rightarrow> Inr (JArr ds'))
        | _ \<Rightarrow> removeHidden hs data)
     else Inr data)"

subsection \<open>Hook registry\<close>

text \<open>
  The payload is passed by reference: a callback can change an object or an array it is
  given, and cannot change a primitive or turn one kind of value into another.
\<close>

fun byRef :: "jsval \<Rightarrow> jsval \<Rightarrow> jsval" where
  "byRef (JObj old) (JObj new) = JObj new"
| "byRef (JArr old) (JArr new) = JArr new"
| "byRef old new = old"

fun callHook :: "wrapper \<Rightarrow> hook \<Rightarrow> hargs \<Rightarrow> jserror + hargs" where
  "callHook w (Callback f) a =
    (case f a of
       Inl e \<Rightarrow> Inl e
     | Inr a' \<Rightarrow> Inr (a'\<lparr>h_data := byRef (h_data a) (h_data a')\<rparr>))"
| "callHook w HideFields a =
    (case hideFields (hidden w) (h_data a) of
       Inl e \<Rightarrow> Inl e
     | Inr d \<Rightarrow> Inr (a\<lparr>h_data := d\<rparr>))"

text \<open>\<open>hooksToApply.forEach(function (hook) { hook(req, res, data) })\<close>: a throw ends the loop.\<close>

fun forEach_hooks :: "wrapper \<Rightarrow> hook list \<Rightarrow> hargs \<Rightarrow> jserror + hargs" where
  "forEach_hooks w [] a = Inr a"
| "forEach_hooks w (h # hs) a =
    (case callHook w h a of
       Inl e \<Rightarrow> Inl e
     | Inr a' \<Rightarrow> forEach_hooks w hs a')"

text \<open>The list \<open>applyHooks\<close> builds before it calls anything. An array is truthy, also when empty.\<close>

definition hooksToApply :: "wrapper \<Rightarrow> phase \<Rightarrow> string \<Rightarrow> hook list" where
  "hooksToApply w ty act =
    (case hooks w ty act of Some hs \<Rightarrow> [] @ hs | None \<Rightarrow> [])
    @ (case hooks w ty ''all'' of Some hs \<Rightarrow> hs | None \<Rightarrow> [])"

definition applyHooks :: "wrapper \<Rightarrow> phase \<Rightarrow> string \<Rightarrow> hargs \<Rightarrow> jserror + hargs" where
  "applyHooks w ty act a = forEach_hooks w (hooksToApply w ty act) a"

definition setHooks :: "phase \<Rightarrow> string \<Rightarrow> hook list \<Rightarrow> wrapper \<Rightarrow> wrapper" where
  "setHooks ty k hs w = w\<lparr>hooks := (hooks w)(ty := (hooks w ty)(k \<mapsto> hs))\<rparr>"

fun addHook :: "phase \<Rightarrow> action \<Rightarrow> hook \<Rightarrow> wrapper \<Rightarrow> wrapper" where
  "addHook ty (AName s) callback w =
    (let w1 = (if hooks w ty s = None then setHooks ty s [] w else w)
     in setHooks ty s (the (hooks w1 ty s) @ [callback]) w1)"
| "addHook ty (AList xs) callback w =
    (let w1 = (if hooks w ty (actionKey (AList xs)) = None
               then setHooks ty (actionKey (AList xs)) [] w else w)
     in fold (\<lambda>a. addHook ty a callback) xs w1)"

definition pre :: "action \<Rightarrow> hook \<Rightarrow> wrapper \<Rightarrow> wrapper" where
  "pre act callback w = addHook Pre act callback w"

definition post :: "action \<Rightarrow> hook \<Rightarrow> wrapper \<Rightarrow> wrapper" where
  "post act callback w = addHook Post act callback w"

text \<open>\<open>hide(args)\<close>: one field name or an array of them.\<close>

datatype fields = Field string | Fields "string list"

definition hide :: "fields \<Rightarrow> wrapper \<Rightarrow> wrapper" where
  "hide args w =
    w\<lparr>hidden := hidden w @ (case args of Fields fs \<Rightarrow> fs | Field f \<Rightarrow> [f])\<rparr>"

subsection \<open>Middleware registry\<close>

fun setMiddleware :: "action \<Rightarrow> middleware \<Rightarrow> wrapper \<Rightarrow> wrapper" where
  "setMiddleware (AName s) callback w = w\<lparr>middlewares := (middlewares w)(s \<mapsto> callback)\<rparr>"
| "setMiddleware (AList xs) callback w = fold (\<lambda>val. setMiddleware val callback) xs w"

definition getMiddleware :: "wrapper \<Rightarrow> string \<Rightarrow> middleware" where
  "getMiddleware w act =
    (case middlewares w act of
       Some m \<Rightarrow> m
     | None \<Rightarrow>
        (case middlewares w ''all'' of
           Some m \<Rightarrow> m
         | None \<Rightarrow> (\<lambda>rq rs. Continue rq rs)))"

section \<open>The mapper and the environment\<close>

text \<open>
  The document mapper is an external collaborator: every call the library makes to it is
  a value of \<open>mcall\<close>, and the mapper is a function from calls to what the returned
  promise settles to (\<open>Inl\<close> a rejection, or a synchronous throw for model resolution).
  The first argument of a query is the model handle it is made on.
\<close>

datatype mcall =
    DefaultModel string
  | UseDbModel jsval string
  | Create jsval jsval
  | FindOne jsval jsval jsval jsval
  | Find jsval jsval jsval jsval jsval
  | Save jsval
  | Remove jsval
  | Count jsval jsval

text \<open>A function of the model: its declared parameter names and what a call does.\<close>

datatype call_result = Returned jsval | Promised "jserror + jsval" | Threw jserror

record jsfun =
  fn_params :: "string list"
  fn_apply :: "jsval \<Rightarrow> jsval list \<Rightarrow> call_result"

record env =
  builtin :: builtins
  mapper :: "mcall \<Rightarrow> jserror + jsval"
  schema_statics :: "jsval \<Rightarrow> string \<Rightarrow> jsfun option"
  model_prop :: "jsval \<Rightarrow> string \<Rightarrow> jsfun option"
  collectionName :: "jsval \<Rightarrow> string"

text \<open>
  \<open>model(params)\<close>: \<open>dbname = params ? params.db : null\<close>, then
  \<open>this.db(dbname).model(this.modelName)\<close> with
  \<open>db(name) = name ? mongoose.connection.useDb(name) : mongoose\<close>.
\<close>

definition modelCall :: "wrapper \<Rightarrow> jsval \<Rightarrow> mcall" where
  "modelCall w params =
    (let dbname = (if truthy params then getp params ''db'' else JNull)
     in if truthy dbname then UseDbModel dbname (modelName w) else DefaultModel (modelName w))"

definition model :: "env \<Rightarrow> wrapper \<Rightarrow> jsval \<Rightarrow> jserror + jsval" where
  "model E w params = mapper E (modelCall w params)"

section \<open>Exposed methods\<close>

text \<open>The argument of \<open>exposeMethod\<close> and \<open>exposeStatic\<close>: a name, or an object with a
  name and perhaps an \<open>exposeName\<close>.\<close>

datatype method_arg = MethodName string | MethodObj string "string option"

text \<open>
  \<open>method = method instanceof Object ? method : {name: method}\<close>, then
  \<open>method = Object.assign({exposeName: method.name}, method)\<close>.
\<close>

fun toDescriptor :: "method_arg \<Rightarrow> descriptor" where
  "toDescriptor (MethodName n) = \<lparr>name = n, exposeName = n\<rparr>"
| "toDescriptor (MethodObj n None) = \<lparr>name = n, exposeName = n\<rparr>"
| "toDescriptor (MethodObj n (Some x)) = \<lparr>name = n, exposeName = x\<rparr>"

text \<open>\<open>Array.prototype.findIndex\<close>: the first index, or -1.\<close>

fun findIndex :: "('a \<Rightarrow> bool) \<Rightarrow> 'a list \<Rightarrow> int" where
  "findIndex P [] = -1"
| "findIndex P (x # xs) =
    (if P x then 0 else (let i = findIndex P xs in if i = -1 then -1 else i + 1))"

definition exposeMethod :: "env \<Rightarrow> method_arg \<Rightarrow> wrapper \<Rightarrow> jserror + wrapper" where
  "exposeMethod E method w =
    (let method = toDescriptor method in
     case model E w JUndefined of
       Inl e \<Rightarrow> Inl e
     | Inr m \<Rightarrow>
        (case model_prop E m (name method) of
           Some f \<Rightarrow> Inr (w\<lparr>methods := methods w @ [method]\<rparr>)
         | None \<Rightarrow>
            Inl (mkError ''Error''
                  (''Instance method '' @ name method @ '' is not defined for model ''
                   @ modelName w))))"

text \<open>\<open>~index ? this.statics[index] = method : this.statics.push(method)\<close>\<close>

definition exposeStatic :: "env \<Rightarrow> method_arg \<Rightarrow> wrapper \<Rightarrow> jserror + wrapper" where
  "exposeStatic E method w =
    (let method = toDescriptor method in
     case model E w JUndefined of
       Inl e \<Rightarrow> Inl e
     | Inr m \<Rightarrow>
        (case schema_statics E m (name method) of
           Some f \<Rightarrow>
            (let index = findIndex (\<lambda>other. exposeName other = exposeName method) (statics w)
             in if index \<noteq> -1
                then Inr (w\<lparr>statics := (statics w)[nat index := method]\<rparr>)
                else Inr (w\<lparr>statics := statics w @ [method]\<rparr>))
         | None \<Rightarrow>
            Inl (mkError ''Error''
                  (''Static method '' @ name method @ '' is not defined for model ''
                   @ modelName w))))"

definition getMethods :: "wrapper \<Rightarrow> descriptor list" where
  "getMethods w = methods w"

definition getStatics :: "wrapper \<Rightarrow> descriptor list" where
  "getStatics w = statics w"

text \<open>The two shortcuts. Both call \<open>exposeMethod\<close>.\<close>

definition method' :: "env \<Rightarrow> method_arg \<Rightarrow> wrapper \<Rightarrow> jserror + wrapper" where
  "method' E m w = exposeMethod E m w"

definition static :: "env \<Rightarrow> method_arg \<Rightarrow> wrapper \<Rightarrow> jserror + wrapper" where
  "static E m w = exposeMethod E m w"

section \<open>Route handlers\<close>

text \<open>
  What a handler did: the hook dispatches and mapper calls it made, in order, and how it
  ended: \<open>res.send(v)\<close>, \<open>next(err)\<close>, or an exception that left the handler
  synchronously.
\<close>

datatype event = Hooks phase string | Call mcall | Invoke string "jsval list"

datatype outcome = Sent jsval | Next jserror | Thrown jserror

record result =
  events :: "event list"
  outcome :: outcome

text \<open>A piece of a handler: the events it adds, and a value or the error that ended it.\<close>

type_synonym 'a step = "event list \<times> (jserror + 'a)"

definition ok :: "'a \<Rightarrow> 'a step" where
  "ok x = ([], Inr x)"

definition failWith :: "jserror \<Rightarrow> 'a step" where
  "failWith e = ([], Inl e)"

definition lift :: "jserror + 'a \<Rightarrow> 'a step" where
  "lift r = ([], r)"

definition andThen :: "'a step \<Rightarrow> ('a \<Rightarrow> 'b step) \<Rightarrow> 'b step" where
  "andThen m f =
    (case m of
       (l, Inl e) \<Rightarrow> (l, Inl e)
     | (l, Inr x) \<Rightarrow> (case f x of (l', r) \<Rightarrow> (l @ l', r)))"

definition runHooks :: "wrapper \<Rightarrow> phase \<Rightarrow> string \<Rightarrow> hargs \<Rightarrow> hargs step" where
  "runHooks w ty act a = ([Hooks ty act], applyHooks w ty act a)"

definition call :: "env \<Rightarrow> mcall \<Rightarrow> jsval step" where
  "call E c = ([Call c], mapper E c)"

text \<open>
  A handler is a synchronous part, whose exception leaves the handler, and a promise
  chain that ends in \<open>res.send\<close> or, through \<open>.catch(next)\<close>, in \<open>next(err)\<close>.
\<close>

definition respond :: "'s step \<Rightarrow> ('s \<Rightarrow> jsval step) \<Rightarrow> result" where
  "respond sync chain =
    (case sync of
       (l, Inl e) \<Rightarrow> \<lparr>events = l, outcome = Thrown e\<rparr>
     | (l, Inr s) \<Rightarrow>
        (case chain s of
           (l', Inl e) \<Rightarrow> \<lparr>events = l @ l', outcome = Next e\<rparr>
         | (l', Inr v) \<Rightarrow> \<lparr>events = l @ l', outcome = Sent v\<rparr>))"

text \<open>\<open>initModel(req, res)\<close>; the payload of the result is the model.\<close>

definition initModel :: "env \<Rightarrow> wrapper \<Rightarrow> req \<Rightarrow> jsval \<Rightarrow> hargs step" where
  "initModel E w rq rs =
    andThen (runHooks w Pre ''init'' \<lparr>h_req = rq, h_res = rs, h_data = JObj []\<rparr>) (\<lambda>a.
    andThen (call E (modelCall w (h_data a))) (\<lambda>m.
    runHooks w Post ''init'' (a\<lparr>h_data := m\<rparr>)))"

text \<open>The error \<open>findById\<close> throws.\<close>

definition ModelNotFound :: jserror where
  "ModelNotFound = (mkError ''ModelNotFound'' ''Not Found'')\<lparr>err_status := Some 404\<rparr>"

definition findById :: "env \<Rightarrow> jsval \<Rightarrow> jsval \<Rightarrow> jsval step" where
  "findById E id' m =
    andThen (call E (FindOne m (JObj [(''_id'', id')]) JUndefined JUndefined)) (\<lambda>doc.
    if \<not> truthy doc then failWith ModelNotFound else ok doc)"

text \<open>The error of \<open>create\<close>: \<open>new TypeError('Only objects allowed')\<close> with \<open>statusCode = 400\<close>.\<close>

definition OnlyObjectsAllowed :: jserror where
  "OnlyObjectsAllowed = (mkError ''TypeError'' ''Only objects allowed'')\<lparr>err_statusCode := Some 400\<rparr>"

text \<open>
  \<open>create\<close>. The guard is \<open>req.body instanceof Array || !req.body instanceof Object\<close>,
  and \<open>!\<close> binds tighter than \<open>instanceof\<close>.
\<close>

definition create :: "env \<Rightarrow> wrapper \<Rightarrow> req \<Rightarrow> jsval \<Rightarrow> result" where
  "create E w rq rs =
    (if instanceof_Array (req_body rq) \<or> instanceof_Object (js_not (req_body rq))
     then \<lparr>events = [], outcome = Next OnlyObjectsAllowed\<rparr>
     else
       respond
         (andThen (initModel E w rq rs) (\<lambda>a0.
          andThen (runHooks w Pre ''create'' (a0\<lparr>h_data := JUndefined\<rparr>)) (\<lambda>a1.
          ok (h_data a0, a1))))
         (\<lambda>(m, a1).
          andThen (call E (Create m (req_body (h_req a1)))) (\<lambda>doc.
          andThen (runHooks w Post ''create'' (a1\<lparr>h_data := doc\<rparr>)) (\<lambda>a2.
          ok (h_data a2)))))"

definition populateArg :: "jsval \<Rightarrow> jsval" where
  "populateArg query = (if truthy (getp query ''populate'') then getp query ''populate'' else JUndefined)"

definition findOne :: "env \<Rightarrow> wrapper \<Rightarrow> req \<Rightarrow> jsval \<Rightarrow> result" where
  "findOne E w rq rs =
    respond
      (andThen (initModel E w rq rs) (\<lambda>a0.
       let query = parseQuery (builtin E) (JObj (req_query (h_req a0))) in
       andThen (lift (setp ''_id'' (getp (JObj (req_params (h_req a0))) ''id'') (getp query ''filter''))) (\<lambda>filter.
       andThen (lift (setp ''filter'' filter query)) (\<lambda>query.
       andThen (runHooks w Pre ''findOne'' (a0\<lparr>h_data := query\<rparr>)) (\<lambda>a1.
       ok (h_data a0, a1))))))
      (\<lambda>(m, a1).
       let query = h_data a1 in
       andThen (call E (FindOne m (getp query ''filter'') (getp query ''projection'') (populateArg query))) (\<lambda>doc.
       if \<not> truthy doc then failWith NotFoundError
       else
         andThen (runHooks w Post ''findOne'' (a1\<lparr>h_data := doc\<rparr>)) (\<lambda>a2.
         ok (h_data a2))))"

definition find :: "env \<Rightarrow> wrapper \<Rightarrow> req \<Rightarrow> jsval \<Rightarrow> result" where
  "find E w rq rs =
    respond
      (andThen (initModel E w rq rs) (\<lambda>a0.
       let query = parseQuery (builtin E) (JObj (req_query (h_req a0))) in
       andThen (runHooks w Pre ''find'' (a0\<lparr>h_data := query\<rparr>)) (\<lambda>a1.
       ok (h_data a0, a1))))
      (\<lambda>(m, a1).
       let query = h_data a1 in
       andThen (call E (Find m (getp query ''filter'') (getp query ''projection'')
                          (getp query ''options'') (populateArg query))) (\<lambda>docs.
       andThen (runHooks w Post ''find'' (a1\<lparr>h_data := docs\<rparr>)) (\<lambda>a2.
       ok (h_data a2))))"

text \<open>
  \<open>doc.save()\<close> and \<open>doc.remove()\<close> exist on a document only: on any other value
  the call throws a TypeError.
\<close>

definition document :: "jsval \<Rightarrow> jserror + jsval" where
  "document d =
    (case d of
       JObj kvs \<Rightarrow> Inr d
     | _ \<Rightarrow> Inl (mkError ''TypeError'' ''not a document''))"

text \<open>\<open>Object.assign(doc, req.body)\<close> on a document: the own properties of the source, in order.\<close>

fun indexKey :: "nat \<Rightarrow> string" where
  "indexKey n =
    (if n < 10 then [char_of (48 + n)] else indexKey (n div 10) @ [char_of (48 + n mod 10)])"

definition ownProps :: "jsval \<Rightarrow> obj" where
  "ownProps v =
    (case v of
       JObj kvs \<Rightarrow> kvs
     | JArr xs \<Rightarrow> zip (map indexKey [0..<length xs]) xs
     | JStr s \<Rightarrow> zip (map indexKey [0..<length s]) (map (\<lambda>c. JStr [c]) s)
     | _ \<Rightarrow> [])"

definition assign :: "jsval \<Rightarrow> jsval \<Rightarrow> jsval" where
  "assign target source =
    (case target of
       JObj t \<Rightarrow> JObj (fold (\<lambda>(k, v). AList.update k v) (ownProps source) t)
     | _ \<Rightarrow> target)"

definition update :: "env \<Rightarrow> wrapper \<Rightarrow> req \<Rightarrow> jsval \<Rightarrow> result" where
  "update E w rq rs =
    respond
      (initModel E w rq rs)
      (\<lambda>a0.
       andThen (findById E (getp (JObj (req_params (h_req a0))) ''id'') (h_data a0)) (\<lambda>doc.
       andThen (runHooks w Pre ''update'' (a0\<lparr>h_data := doc\<rparr>)) (\<lambda>a1.
       andThen (lift (document (h_data a1))) (\<lambda>doc.
       andThen (call E (Save (assign doc (req_body (h_req a1))))) (\<lambda>doc.
       andThen (runHooks w Post ''update'' (a1\<lparr>h_data := doc\<rparr>)) (\<lambda>a2.
       ok (h_data a2)))))))"

definition delete :: "env \<Rightarrow> wrapper \<Rightarrow> req \<Rightarrow> jsval \<Rightarrow> result" where
  "delete E w rq rs =
    respond
      (initModel E w rq rs)
      (\<lambda>a0.
       andThen (findById E (getp (JObj (req_params (h_req a0))) ''id'') (h_data a0)) (\<lambda>doc.
       andThen (runHooks w Pre ''delete'' (a0\<lparr>h_data := doc\<rparr>)) (\<lambda>a1.
       andThen (lift (document (h_data a1))) (\<lambda>doc.
       andThen (call E (Remove doc)) (\<lambda>doc.
       andThen (runHooks w Post ''delete'' (a1\<lparr>h_data := doc\<rparr>)) (\<lambda>a2.
       ok (h_data a2)))))))"

definition count :: "env \<Rightarrow> wrapper \<Rightarrow> req \<Rightarrow> jsval \<Rightarrow> result" where
  "count E w rq rs =
    respond
      (andThen (initModel E w rq rs) (\<lambda>a0.
       let query = parseQuery (builtin E) (JObj [(''filter'', JObj (req_query (h_req a0)))]) in
       andThen (runHooks w Pre ''count'' (a0\<lparr>h_data := query\<rparr>)) (\<lambda>a1.
       ok (h_data a0, a1))))
      (\<lambda>(m, a1).
       andThen (call E (Count m (getp (h_data a1) ''filter''))) (\<lambda>count.
       andThen (runHooks w Post ''count'' (a1\<lparr>h_data := count\<rparr>)) (\<lambda>a2.
       ok (JObj [(''count'', h_data a2)]))))"

text \<open>\<open>req.body[paramName]\<close>: a TypeError when the body is null or undefined.\<close>

definition bodyField :: "jsval \<Rightarrow> string \<Rightarrow> jserror + jsval" where
  "bodyField body k =
    (if body = JNull \<or> body = JUndefined
     then Inl (mkError ''TypeError'' ''Cannot read property'')
     else Inr (getp body k))"

fun mapE :: "('a \<Rightarrow> jserror + 'b) \<Rightarrow> 'a list \<Rightarrow> jserror + 'b list" where
  "mapE f [] = Inr []"
| "mapE f (x # xs) =
    (case f x of
       Inl e \<Rightarrow> Inl e
     | Inr y \<Rightarrow> (case mapE f xs of Inl e \<Rightarrow> Inl e | Inr ys \<Rightarrow> Inr (y # ys)))"

text \<open>
  The body of the \<open>try\<close> block of \<open>callMethod\<close> and \<open>callStatic\<close> up to the promise:
  \<open>model[method]\<close>, \<open>getParamNames(_method).map(paramName => req.body[paramName])\<close>,
  \<open>_method.apply(model, params)\<close>, and the result as a promise.
\<close>

definition invoke :: "env \<Rightarrow> jsval \<Rightarrow> string \<Rightarrow> jsval \<Rightarrow> jsval step" where
  "invoke E m meth body =
    (case model_prop E m meth of
       None \<Rightarrow> failWith (mkError ''TypeError'' ''not a function'')
     | Some f \<Rightarrow>
        andThen (lift (mapE (bodyField body) (fn_params f))) (\<lambda>params.
        ([Invoke meth params],
         (case fn_apply f m params of
            Returned v \<Rightarrow> Inr v
          | Promised r \<Rightarrow> r
          | Threw e \<Rightarrow> Inl e))))"

definition callMethod :: "env \<Rightarrow> wrapper \<Rightarrow> string \<Rightarrow> req \<Rightarrow> jsval \<Rightarrow> result" where
  "callMethod E w meth rq rs =
    respond
      (andThen (initModel E w rq rs) (\<lambda>a0.
       andThen (runHooks w Pre ''method'' (a0\<lparr>h_data := JStr meth\<rparr>)) (\<lambda>a1.
       ok (h_data a0, a1))))
      (\<lambda>(m, a1).
       andThen (invoke E m meth (req_body (h_req a1))) (\<lambda>result.
       andThen (runHooks w Post ''method'' (a1\<lparr>h_data := JStr meth\<rparr>)) (\<lambda>a2.
       ok result)))"

definition callStatic :: "env \<Rightarrow> wrapper \<Rightarrow> string \<Rightarrow> req \<Rightarrow> jsval \<Rightarrow> result" where
  "callStatic E w meth rq rs =
    respond
      (andThen (initModel E w rq rs) (\<lambda>a0.
       andThen (runHooks w Pre ''static'' (a0\<lparr>h_data := JStr meth\<rparr>)) (\<lambda>a1.
       ok (h_data a0, a1))))
      (\<lambda>(m, a1).
       andThen (invoke E m meth (req_body (h_req a1))) (\<lambda>result.
       andThen (runHooks w Post ''static'' (a1\<lparr>h_data := JStr meth\<rparr>)) (\<lambda>a2.
       ok result)))"

section \<open>Router assembly\<close>

datatype verb = GET | POST | PUT | DELETE | OPTIONS

datatype target =
    ToCallStatic string | ToOptions | ToCount | ToFindOne | ToFind | ToCreate | ToUpdate | ToDelete

record route =
  r_verb :: verb
  r_path :: string
  r_middleware :: "middleware option"
  r_target :: target

definition mkRoute :: "verb \<Rightarrow> string \<Rightarrow> middleware option \<Rightarrow> target \<Rightarrow> route" where
  "mkRoute v p m t = \<lparr>r_verb = v, r_path = p, r_middleware = m, r_target = t\<rparr>"

text \<open>\<open>setupModelRoutes\<close>: the routes in the order they are registered.\<close>

definition setupModelRoutes :: "env \<Rightarrow> wrapper \<Rightarrow> jserror + route list" where
  "setupModelRoutes E w =
    (case model E w JUndefined of
       Inl e \<Rightarrow> Inl e
     | Inr m \<Rightarrow>
        (let path = ''/'' @ collectionName E m in
         Inr (map (\<lambda>d. mkRoute POST (path @ ''/'' @ exposeName d) None (ToCallStatic (name d)))
                  (getStatics w)
              @ [mkRoute OPTIONS path None ToOptions,
                 mkRoute GET (path @ ''/count'') (Some (getMiddleware w ''count'')) ToCount,
                 mkRoute GET (path @ ''/:id'') (Some (getMiddleware w ''find'')) ToFindOne,
                 mkRoute GET path (Some (getMiddleware w ''find'')) ToFind,
                 mkRoute POST path (Some (getMiddleware w ''create'')) ToCreate,
                 mkRoute POST (path @ ''/:id'') (Some (getMiddleware w ''update'')) ToUpdate,
                 mkRoute PUT path (Some (getMiddleware w ''create'')) ToCreate,
                 mkRoute DELETE (path @ ''/:id'') (Some (getMiddleware w ''delete'')) ToDelete])))"

text \<open>\<open>setupModel\<close>: the hiding callback is registered, then the routes are built.\<close>

definition hiddenActions :: action where
  "hiddenActions = AList [AName ''create'', AName ''find'', AName ''findOne'', AName ''delete'', AName ''update'']"

definition setupModel :: "env \<Rightarrow> wrapper \<Rightarrow> jserror + (wrapper \<times> route list)" where
  "setupModel E w =
    (let w' = addHook Post hiddenActions HideFields w in
     case setupModelRoutes E w' of
       Inl e \<Rightarrow> Inl e
     | Inr routes \<Rightarrow> Inr (w', routes))"

text \<open>What a route's handler calls.\<close>

fun handle :: "env \<Rightarrow> wrapper \<Rightarrow> target \<Rightarrow> req \<Rightarrow> jsval \<Rightarrow> result" where
  "handle E w (ToCallStatic n) rq rs = callStatic E w n rq rs"
| "handle E w ToOptions rq rs = \<lparr>events = [], outcome = Sent JUndefined\<rparr>"
| "handle E w ToCount rq rs = count E w rq rs"
| "handle E w ToFindOne rq rs = findOne E w rq rs"
| "handle E w ToFind rq rs = find E w rq rs"
| "handle E w ToCreate rq rs = create E w rq rs"
| "handle E w ToUpdate rq rs = update E w rq rs"
| "handle E w ToDelete rq rs = delete E w rq rs"

section \<open>Registration order, as the specification words it\<close>

text \<open>
  The specification of the hook registry: a registration for an array of actions stands
  for one registration per name in it, and the callbacks of a phase and an action are
  those registered for them, in registration order.
\<close>

fun flatten :: "action \<Rightarrow> string list" where
  "flatten (AName s) = [s]"
| "flatten (AList xs) = concat (map flatten xs)"

definition registered :: "(phase \<times> action \<times> hook) list \<Rightarrow> phase \<Rightarrow> string \<Rightarrow> hook list" where
  "registered regs ty act =
    concat (map (\<lambda>(ty', a, callback).
                  if ty' = ty then map (\<lambda>s. callback) (filter (\<lambda>s. s = act) (flatten a)) else [])
                regs)"

text \<open>A hook table built by \<open>addHook\<close>: the calls made on a new wrapper, in order.\<close>

definition registerAll :: "(phase \<times> action \<times> hook) list \<Rightarrow> wrapper \<Rightarrow> wrapper" where
  "registerAll regs w = fold (\<lambda>(ty, a, callback). addHook ty a callback) regs w"

definition hooksFor :: "wrapper \<Rightarrow> phase \<Rightarrow> string \<Rightarrow> hook list" where
  "hooksFor w ty k = (case hooks w ty k of Some hs \<Rightarrow> hs | None \<Rightarrow> [])"

text \<open>A document, or each document of an array, reads \<open>undefined\<close> at every hidden field.\<close>

definition cleared :: "string list \<Rightarrow> jsval \<Rightarrow> bool" where
  "cleared hs d =
    (case d of
       JArr ds \<Rightarrow> list_all (\<lambda>x. list_all (\<lambda>f. getp x f = JUndefined) hs) ds
     | _ \<Rightarrow> list_all (\<lambda>f. getp d f = JUndefined) hs)"

text \<open>The events of \<open>initModel\<close>: the two \<open>init\<close> dispatches and the resolution of the model.\<close>

definition initEvent :: "event \<Rightarrow> bool" where
  "initEvent ev \<longleftrightarrow>
     ev = Hooks Pre ''init'' \<or> ev = Hooks Post ''init''
     \<or> (\<exists>n. ev = Call (DefaultModel n)) \<or> (\<exists>d n. ev = Call (UseDbModel d n))"

text \<open>
  The error handler of the repository's test application, which answers what reaches the
  error channel: \<open>res.status(err.statusCode || 400).send({message: err.message})\<close>.
  It reads the status under \<open>statusCode\<close> only.
\<close>

definition errorHandler :: "jserror \<Rightarrow> int \<times> jsval" where
  "errorHandler err =
    ((case err_statusCode err of
        Some c \<Rightarrow> if c \<noteq> 0 then c else 400
      | None \<Rightarrow> 400),
     JObj [(''message'', JStr (err_message err))])"

section \<open>Fixtures\<close>

text \<open>
  Concrete collaborators for the examples, after the test suite of the repository: the
  model \<open>Test\<close> with two documents and the static method \<open>exposedStaticMethod\<close>.
  \<open>String\<close> is the language's on the values of this theory; \<open>Number\<close> and
  \<open>JSON.parse\<close> read decimal numerals and refuse every other string.
\<close>

fun decimal :: "nat \<Rightarrow> string \<Rightarrow> nat option" where
  "decimal acc [] = Some acc"
| "decimal acc (c # cs) =
    (if 48 \<le> (of_char c :: nat) \<and> (of_char c :: nat) \<le> 57
     then decimal (10 * acc + (of_char c - 48)) cs
     else None)"

fun testString :: "jsval \<Rightarrow> string" where
  "testString JUndefined = ''undefined''"
| "testString JNull = ''null''"
| "testString (JBool b) = (if b then ''true'' else ''false'')"
| "testString (JNum n) = (if n < 0 then ''-'' @ indexKey (nat (- n)) else indexKey (nat n))"
| "testString JNaN = ''NaN''"
| "testString (JStr s) = s"
| "testString (JArr xs) =
    join '','' (map (\<lambda>x. if x = JNull \<or> x = JUndefined then [] else testString x) xs)"
| "testString (JObj kvs) = ''[object Object]''"

definition testNumber :: "jsval \<Rightarrow> jsval" where
  "testNumber v =
    (case v of
       JNull \<Rightarrow> JNum 0
     | JBool b \<Rightarrow> JNum (if b then 1 else 0)
     | JNum n \<Rightarrow> JNum n
     | JStr s \<Rightarrow> (case decimal 0 s of Some n \<Rightarrow> JNum (int n) | None \<Rightarrow> JNaN)
     | _ \<Rightarrow> JNaN)"

definition testBuiltins :: builtins where
  "testBuiltins =
    \<lparr>js_String = testString, js_Number = testNumber,
     JSON_parse = (\<lambda>s. if s = [] then None else map_option (\<lambda>n. JNum (int n)) (decimal 0 s))\<rparr>"

definition testDocs :: "jsval list" where
  "testDocs =
    [JObj [(''name'', JStr ''someName''), (''_id'', JNum 1)],
     JObj [(''name'', JStr ''someName2''), (''_id'', JNum 2)]]"

text \<open>The mapper casts the value of a filter field to the type of the schema: here, a number.\<close>

definition sameValue :: "jsval \<Rightarrow> jsval \<Rightarrow> bool" where
  "sameValue a b \<longleftrightarrow> a = b \<or> (testNumber a = testNumber b \<and> testNumber a \<noteq> JNaN)"

definition matches :: "jsval \<Rightarrow> jsval \<Rightarrow> bool" where
  "matches flt doc = list_all (\<lambda>(k, v). sameValue (getp doc k) v) (ownProps flt)"

definition testMapper :: "mcall \<Rightarrow> jserror + jsval" where
  "testMapper c =
    (case c of
       DefaultModel n \<Rightarrow> Inr (JObj [(''modelName'', JStr n)])
     | UseDbModel db n \<Rightarrow> Inr (JObj [(''modelName'', JStr n), (''db'', db)])
     | Create m body \<Rightarrow> Inr body
     | FindOne m flt projection populate \<Rightarrow>
        Inr (case List.find (matches flt) testDocs of Some d \<Rightarrow> d | None \<Rightarrow> JNull)
     | Find m flt projection options populate \<Rightarrow> Inr (JArr (filter (matches flt) testDocs))
     | Save d \<Rightarrow> Inr d
     | Remove d \<Rightarrow> Inr d
     | Count m flt \<Rightarrow> Inr (JNum (int (length (filter (matches flt) testDocs)))))"

text \<open>
  \<open>testSchema.statics.exposedStaticMethod = function (param1, param2)\<close>, returning an
  object with a message made of the two arguments.
\<close>

definition argument :: "jsval list \<Rightarrow> nat \<Rightarrow> jsval" where
  "argument args i = (if i < length args then args ! i else JUndefined)"

definition exposedStaticMethod :: jsfun where
  "exposedStaticMethod =
    \<lparr>fn_params = [''param1'', ''param2''],
     fn_apply = (\<lambda>this args.
       Returned (JObj [(''message'',
         JStr (''param1: '' @ testString (argument args 0)
               @ '', param2: '' @ testString (argument args 1)))]))\<rparr>"

definition testStatics :: "string \<Rightarrow> jsfun option" where
  "testStatics n =
    (if n = ''exposedStaticMethod'' \<or> n = ''exposedStaticMethod2''
     then Some exposedStaticMethod else None)"

definition testEnv :: env where
  "testEnv =
    \<lparr>builtin = testBuiltins, mapper = testMapper,
     schema_statics = (\<lambda>m. testStatics), model_prop = (\<lambda>m. testStatics),
     collectionName = (\<lambda>m. ''tests'')\<rparr>"

definition testReq :: "jsval \<Rightarrow> obj \<Rightarrow> obj \<Rightarrow> req" where
  "testReq b q p = \<lparr>req_body = b, req_query = q, req_params = p\<rparr>"

text \<open>A callback that appends a tag to the response object, to make the order of calls visible.\<close>

definition tagHook :: "string \<Rightarrow> hook" where
  "tagHook s =
    Callback (\<lambda>a. Inr (a\<lparr>h_res := JArr ((case h_res a of JArr xs \<Rightarrow> xs | _ \<Rightarrow> []) @ [JStr s])\<rparr>))"

text \<open>\<open>restaman.addModel('Test').exposeStatic('exposedStaticMethod')\<close>\<close>

definition testWrapper :: wrapper where
  "testWrapper =
    (ModelWrapper ''Test'')\<lparr>statics := [\<lparr>name = ''exposedStaticMethod'', exposeName = ''exposedStaticMethod''\<rparr>]\<rparr>"

definition setField :: "string \<Rightarrow> jsval \<Rightarrow> hook" where
  "setField k v =
    Callback (\<lambda>a. case setp k v (h_data a) of Inl e \<Rightarrow> Inl e | Inr d \<Rightarrow> Inr (a\<lparr>h_data := d\<rparr>))"

definition restrictDelete :: hook where
  "restrictDelete = Callback (\<lambda>a. Inl (mkError ''Error'' ''Oops!''))"

text \<open>
  A wrapper with hooks of the test suite: \<open>pre('update', updateContent)\<close>,
  \<open>pre('delete', restrictDelete)\<close> and \<open>post('findOne', addFindOneContent)\<close>.
\<close>

definition hookedWrapper :: wrapper where
  "hookedWrapper =
    post (AName ''findOne'') (setField ''content'' (JStr ''from post findOne hook''))
      (pre (AName ''delete'') restrictDelete
        (pre (AName ''update'') (setField ''content'' (JStr ''from pre update hook''))
          (ModelWrapper ''Test'')))"

definition testModel :: jsval where
  "testModel = JObj [(''modelName'', JStr ''Test'')]"

text \<open>\<open>restaman.addModel('Test').hide(['name'])\<close>, and the same with a catch-all post hook.\<close>

definition hidingWrapper :: wrapper where
  "hidingWrapper = hide (Fields [''name'']) (ModelWrapper ''Test'')"

text \<open>A callback that writes the name of the document it is given: the payload has an \<open>_id\<close>.\<close>

definition restoreName :: hook where
  "restoreName =
    Callback (\<lambda>a. if getp (h_data a) ''_id'' = JUndefined then Inr a
                  else (case setp ''name'' (JStr ''restored'') (h_data a) of
                          Inl e \<Rightarrow> Inl e
                        | Inr d \<Rightarrow> Inr (a\<lparr>h_data := d\<rparr>)))"

definition restoringWrapper :: wrapper where
  "restoringWrapper = post (AName ''all'') restoreName hidingWrapper"

section \<open>Properties of the query parser\<close>

lemma typeof_undefined: "typeof v = TUndefined \<longleftrightarrow> v = JUndefined"
  by (cases v) auto

lemma parseQueryOptions_unfold:
  "parseQueryOptions B q =
     (if getp q ''sort'' = JUndefined then [] else [(''sort'', JStr (js_String B (getp q ''sort'')))])
     @ (if getp q ''skip'' = JUndefined then []
        else [(''skip'', js_Number B (if truthy (getp q ''skip'') then getp q ''skip'' else getp q ''start''))])
     @ (if getp q ''limit'' = JUndefined then [] else [(''limit'', js_Number B (getp q ''limit''))])"
  by (simp add: parseQueryOptions_def formatters_def typeof_undefined js_or_def)

text \<open>
  What \<open>parseQueryOptions\<close> computes. The options have at most the keys
  \<open>sort\<close>, \<open>skip\<close> and \<open>limit\<close>, each present exactly when the query
  mapping has it: \<open>sort\<close> is the string coercion of the raw value, \<open>limit\<close> its
  number coercion, and the formatter of \<open>skip\<close>, which is
  \<open>Number(value || q.start)\<close>, runs only when \<open>skip\<close> is present.
\<close>

theorem parseQueryOptions_keys:
  "map_of (parseQueryOptions B q) ''sort'' =
     (if getp q ''sort'' = JUndefined then None
      else Some (JStr (js_String B (getp q ''sort''))))
   \<and> map_of (parseQueryOptions B q) ''limit'' =
     (if getp q ''limit'' = JUndefined then None
      else Some (js_Number B (getp q ''limit'')))
   \<and> map_of (parseQueryOptions B q) ''skip'' =
     (if getp q ''skip'' = JUndefined then None
      else Some (js_Number B (if truthy (getp q ''skip'') then getp q ''skip'' else getp q ''start'')))
   \<and> set (map fst (parseQueryOptions B q)) \<subseteq> {''sort'', ''skip'', ''limit''}"
  by (simp add: parseQueryOptions_unfold)

theorem parseQueryOptions_keys_witness:
  "map_of (parseQueryOptions testBuiltins
      (JObj [(''skip'', JStr ''''), (''start'', JStr ''5''), (''sort'', JStr ''title'')])) ''sort''
     = Some (JStr ''title'')
   \<and> map_of (parseQueryOptions testBuiltins
      (JObj [(''skip'', JStr ''''), (''start'', JStr ''5''), (''sort'', JStr ''title'')])) ''limit''
     = None
   \<and> map_of (parseQueryOptions testBuiltins
      (JObj [(''skip'', JStr ''''), (''start'', JStr ''5''), (''sort'', JStr ''title'')])) ''skip''
     = Some (JNum 5)"
  using parseQueryOptions_keys [of testBuiltins
      "JObj [(''skip'', JStr ''''), (''start'', JStr ''5''), (''sort'', JStr ''title'')]"]
  by (simp add: testBuiltins_def testNumber_def)

text \<open>
  C6. The specification asks for \<open>skip\<close> to fall back to the \<open>start\<close> parameter
  when \<open>skip\<close> is absent, and the formatter of \<open>skip\<close> is written for it
  (\<open>value || q.start\<close>). The guard \<open>typeof query[key] !== 'undefined'\<close> keeps the
  formatter from running in just that case: on the query \<open>?start=5\<close> the number
  coercion of \<open>start\<close> is 5 and the options are empty, and on
  \<open>?start=20&limit=10\<close> they have \<open>limit\<close> only. The fallback is reached only
  when \<open>skip\<close> is present and falsy, as in \<open>?skip=&start=5\<close>.
\<close>

theorem start_without_skip_gives_no_skip:
  "getp (JObj [(''start'', JStr ''5'')]) ''skip'' = JUndefined
   \<and> js_Number testBuiltins (getp (JObj [(''start'', JStr ''5'')]) ''start'') = JNum 5
   \<and> parseQueryOptions testBuiltins (JObj [(''start'', JStr ''5'')]) = []
   \<and> parseQueryOptions testBuiltins (JObj [(''start'', JStr ''20''), (''limit'', JStr ''10'')])
       = [(''limit'', JNum 10)]
   \<and> parseQueryOptions testBuiltins (JObj [(''skip'', JStr []), (''start'', JStr ''5'')])
       = [(''skip'', JNum 5)]"
  by (simp add: parseQueryOptions_unfold testBuiltins_def testNumber_def)

section \<open>Properties of the hook registry\<close>

lemma hooksFor_ensure:
  "hooksFor (if hooks w ty k = None then setHooks ty k [] w else w) ty' k' = hooksFor w ty' k'"
  by (auto simp: hooksFor_def setHooks_def)

lemma hooksFor_fold:
  assumes "\<And>x w0. x \<in> set ys \<Longrightarrow> hooksFor (addHook ty x cb w0) ty' k = hooksFor w0 ty' k @ f x"
  shows "hooksFor (fold (\<lambda>a. addHook ty a cb) ys w) ty' k = hooksFor w ty' k @ concat (map f ys)"
  using assms by (induction ys arbitrary: w) auto

lemma hooksFor_addHook:
  "hooksFor (addHook ty a cb w) ty' k =
     hooksFor w ty' k @ (if ty' = ty then map (\<lambda>s. cb) (filter (\<lambda>s. s = k) (flatten a)) else [])"
proof (induction ty a cb w rule: addHook.induct)
  case (1 ty s cb w)
  show ?case
    by (auto simp: hooksFor_def setHooks_def Let_def split: option.splits)
next
  case (2 ty xs cb w)
  let ?f = "\<lambda>x. if ty' = ty then map (\<lambda>s. cb) (filter (\<lambda>s. s = k) (flatten x)) else []"
  let ?w1 = "if hooks w ty (actionKey (AList xs)) = None
             then setHooks ty (actionKey (AList xs)) [] w else w"
  have "hooksFor (fold (\<lambda>a. addHook ty a cb) xs ?w1) ty' k = hooksFor ?w1 ty' k @ concat (map ?f xs)"
    by (rule hooksFor_fold) (use 2 in blast)
  moreover have "concat (map ?f xs) = ?f (AList xs)"
    by (induction xs) auto
  ultimately show ?case
    by (simp only: addHook.simps Let_def hooksFor_ensure)
qed

lemma hooksFor_registerAll:
  "hooksFor (registerAll regs w) ty k = hooksFor w ty k @ registered regs ty k"
  unfolding registerAll_def registered_def
  by (induction regs arbitrary: w) (auto simp: hooksFor_addHook)

lemma hooksToApply_hooksFor: "hooksToApply w ty act = hooksFor w ty act @ hooksFor w ty ''all''"
  by (simp add: hooksToApply_def hooksFor_def split: option.splits)

lemma forEach_hooks_append:
  "forEach_hooks w (hs1 @ hs2) a =
    (case forEach_hooks w hs1 a of Inl e \<Rightarrow> Inl e | Inr a' \<Rightarrow> forEach_hooks w hs2 a')"
  by (induction hs1 arbitrary: a) (auto split: sum.splits)

text \<open>
  C2. On a hook table built by \<open>addHook\<close> calls on a new wrapper, the list of callbacks
  that \<open>applyHooks(type, action, req, res, data)\<close> builds is the callbacks registered for
  the phase and the action, in registration order, followed by those registered for the
  phase and \<open>all\<close>, in registration order; \<open>applyHooks\<close> calls them one after the
  other in that order, synchronously, on the request, the response and the payload.
\<close>

theorem applyHooks_registration_order:
  "hooksToApply (registerAll regs (ModelWrapper n)) ty act
     = registered regs ty act @ registered regs ty ''all''
   \<and> applyHooks (registerAll regs (ModelWrapper n)) ty act a
     = forEach_hooks (registerAll regs (ModelWrapper n))
         (registered regs ty act @ registered regs ty ''all'') a"
  by (simp add: applyHooks_def hooksToApply_hooksFor hooksFor_registerAll)
     (simp add: hooksFor_def ModelWrapper_def)

theorem applyHooks_registration_order_witness:
  "hooksToApply
     (registerAll [(Post, AName ''all'', tagHook ''B''), (Post, AName ''find'', tagHook ''A''),
                   (Pre, AName ''find'', tagHook ''D''),
                   (Post, AList [AName ''get'', AName ''find''], tagHook ''C'')]
        (ModelWrapper ''Post''))
     Post ''find''
    = [tagHook ''A'', tagHook ''C'', tagHook ''B'']
   \<and> applyHooks
     (registerAll [(Post, AName ''all'', tagHook ''B''), (Post, AName ''find'', tagHook ''A''),
                   (Pre, AName ''find'', tagHook ''D''),
                   (Post, AList [AName ''get'', AName ''find''], tagHook ''C'')]
        (ModelWrapper ''Post''))
     Post ''find'' \<lparr>h_req = testReq JUndefined [] [], h_res = JArr [], h_data = JArr []\<rparr>
    = Inr \<lparr>h_req = testReq JUndefined [] [], h_res = JArr [JStr ''A'', JStr ''C'', JStr ''B''],
           h_data = JArr []\<rparr>"
  using applyHooks_registration_order
    [of "[(Post, AName ''all'', tagHook ''B''), (Post, AName ''find'', tagHook ''A''),
          (Pre, AName ''find'', tagHook ''D''),
          (Post, AList [AName ''get'', AName ''find''], tagHook ''C'')]"
        "''Post''" Post "''find''"
        "\<lparr>h_req = testReq JUndefined [] [], h_res = JArr [], h_data = JArr []\<rparr>"]
  by (simp add: registered_def tagHook_def)

section \<open>Properties of method exposure\<close>

lemma findIndex_nonneg: "findIndex P xs = -1 \<or> 0 \<le> findIndex P xs"
  by (induction xs) (auto simp: Let_def)

lemma findIndex_none: "findIndex P xs = -1 \<longleftrightarrow> (\<forall>x\<in>set xs. \<not> P x)"
proof (induction xs)
  case Nil
  then show ?case by simp
next
  case (Cons x xs)
  then show ?case
    using findIndex_nonneg [of P xs] by (auto simp: Let_def)
qed

lemma findIndex_first:
  "findIndex P xs \<noteq> -1 \<Longrightarrow>
     nat (findIndex P xs) < length xs \<and> P (xs ! nat (findIndex P xs))
     \<and> (\<forall>j < nat (findIndex P xs). \<not> P (xs ! j))"
proof (induction xs)
  case Nil
  then show ?case by simp
next
  case (Cons x xs)
  show ?case
  proof (cases "P x")
    case True
    then show ?thesis by simp
  next
    case False
    with Cons.prems have ne: "findIndex P xs \<noteq> -1"
      by (auto simp: Let_def split: if_splits)
    have nn: "0 \<le> findIndex P xs"
      using findIndex_nonneg [of P xs] ne by auto
    have eq: "nat (findIndex P (x # xs)) = Suc (nat (findIndex P xs))"
      using False ne nn by (simp add: Let_def nat_add_distrib)
    from Cons.IH [OF ne] show ?thesis
      unfolding eq using False by (auto simp: less_Suc_eq_0_disj)
  qed
qed

text \<open>
  C8. Where the model resolves, \<open>exposeStatic(m)\<close> throws exactly when the named method
  is not a function among the model's statics. Otherwise, when a descriptor with the same
  \<open>exposeName\<close> is in the statics list, the new descriptor replaces the first such
  one at its position and the list keeps its length; when there is none, the descriptor
  is appended.
\<close>

theorem exposeStatic_registration:
  "model E w JUndefined = Inr m \<Longrightarrow>
    ((\<exists>e. exposeStatic E arg w = Inl e) \<longleftrightarrow> schema_statics E m (name (toDescriptor arg)) = None)
    \<and> (schema_statics E m (name (toDescriptor arg)) \<noteq> None \<longrightarrow>
         (if \<exists>x\<in>set (statics w). exposeName x = exposeName (toDescriptor arg)
          then \<exists>i<length (statics w).
                 exposeName (statics w ! i) = exposeName (toDescriptor arg)
                 \<and> (\<forall>j<i. exposeName (statics w ! j) \<noteq> exposeName (toDescriptor arg))
                 \<and> exposeStatic E arg w = Inr (w\<lparr>statics := (statics w)[i := toDescriptor arg]\<rparr>)
                 \<and> length ((statics w)[i := toDescriptor arg]) = length (statics w)
          else exposeStatic E arg w = Inr (w\<lparr>statics := statics w @ [toDescriptor arg]\<rparr>)))"
proof -
  assume m: "model E w JUndefined = Inr m"
  let ?d = "toDescriptor arg"
  let ?P = "\<lambda>other. exposeName other = exposeName ?d"
  let ?i = "findIndex ?P (statics w)"
  have throws: "(\<exists>e. exposeStatic E arg w = Inl e) \<longleftrightarrow> schema_statics E m (name ?d) = None"
    using m by (auto simp: exposeStatic_def Let_def split: option.splits)
  have placed: "schema_statics E m (name ?d) \<noteq> None \<longrightarrow>
         (if \<exists>x\<in>set (statics w). ?P x
          then \<exists>i<length (statics w).
                 ?P (statics w ! i) \<and> (\<forall>j<i. \<not> ?P (statics w ! j))
                 \<and> exposeStatic E arg w = Inr (w\<lparr>statics := (statics w)[i := ?d]\<rparr>)
                 \<and> length ((statics w)[i := ?d]) = length (statics w)
          else exposeStatic E arg w = Inr (w\<lparr>statics := statics w @ [?d]\<rparr>))"
  proof (intro impI)
    assume f: "schema_statics E m (name ?d) \<noteq> None"
    show "if \<exists>x\<in>set (statics w). ?P x
          then \<exists>i<length (statics w).
                 ?P (statics w ! i) \<and> (\<forall>j<i. \<not> ?P (statics w ! j))
                 \<and> exposeStatic E arg w = Inr (w\<lparr>statics := (statics w)[i := ?d]\<rparr>)
                 \<and> length ((statics w)[i := ?d]) = length (statics w)
          else exposeStatic E arg w = Inr (w\<lparr>statics := statics w @ [?d]\<rparr>)"
    proof (cases "\<exists>x\<in>set (statics w). ?P x")
      case True
      then have ne: "?i \<noteq> -1" by (simp add: findIndex_none)
      have run: "exposeStatic E arg w = Inr (w\<lparr>statics := (statics w)[nat ?i := ?d]\<rparr>)"
        using m f ne by (auto simp: exposeStatic_def Let_def split: option.splits)
      from findIndex_first [OF ne] run True show ?thesis
        by (intro if_P [THEN iffD2]) auto
    next
      case False
      then have "?i = -1" by (simp add: findIndex_none)
      with m f False show ?thesis
        by (auto simp: exposeStatic_def Let_def split: option.splits)
    qed
  qed
  from throws placed show ?thesis by blast
qed

lemma testWrapper_model: "model testEnv testWrapper JUndefined = Inr (JObj [(''modelName'', JStr ''Test'')])"
  by (simp add: model_def modelCall_def testEnv_def testMapper_def testWrapper_def ModelWrapper_def)

lemma testEnv_collectionName: "collectionName testEnv m = ''tests''"
  by (simp add: testEnv_def)

theorem exposeStatic_registration_witness:
  "model testEnv testWrapper JUndefined = Inr (JObj [(''modelName'', JStr ''Test'')])
   \<and> (\<exists>e. exposeStatic testEnv (MethodName ''wrongStaticMethod'') testWrapper = Inl e)
   \<and> exposeStatic testEnv (MethodObj ''exposedStaticMethod2'' (Some ''exposedStaticMethod'')) testWrapper
       = Inr (testWrapper\<lparr>statics := [\<lparr>name = ''exposedStaticMethod2'', exposeName = ''exposedStaticMethod''\<rparr>]\<rparr>)
   \<and> exposeStatic testEnv (MethodName ''exposedStaticMethod2'') testWrapper
       = Inr (testWrapper\<lparr>statics := [\<lparr>name = ''exposedStaticMethod'', exposeName = ''exposedStaticMethod''\<rparr>,
                                         \<lparr>name = ''exposedStaticMethod2'', exposeName = ''exposedStaticMethod2''\<rparr>]\<rparr>)"
proof -
  note h = testWrapper_model
  have st: "statics testWrapper = [\<lparr>name = ''exposedStaticMethod'', exposeName = ''exposedStaticMethod''\<rparr>]"
    by (simp add: testWrapper_def)
  have A: "\<exists>e. exposeStatic testEnv (MethodName ''wrongStaticMethod'') testWrapper = Inl e"
    using exposeStatic_registration [OF h, of "MethodName ''wrongStaticMethod''"]
    by (simp add: testEnv_def testStatics_def)
  have B: "exposeStatic testEnv (MethodObj ''exposedStaticMethod2'' (Some ''exposedStaticMethod'')) testWrapper
       = Inr (testWrapper\<lparr>statics := [\<lparr>name = ''exposedStaticMethod2'', exposeName = ''exposedStaticMethod''\<rparr>]\<rparr>)"
    using exposeStatic_registration [OF h, of "MethodObj ''exposedStaticMethod2'' (Some ''exposedStaticMethod'')"]
    by (simp add: testEnv_def testStatics_def st)
  have C: "exposeStatic testEnv (MethodName ''exposedStaticMethod2'') testWrapper
       = Inr (testWrapper\<lparr>statics := [\<lparr>name = ''exposedStaticMethod'', exposeName = ''exposedStaticMethod''\<rparr>,
                                         \<lparr>name = ''exposedStaticMethod2'', exposeName = ''exposedStaticMethod2''\<rparr>]\<rparr>)"
    using exposeStatic_registration [OF h, of "MethodName ''exposedStaticMethod2''"]
    by (simp add: testEnv_def testStatics_def st)
  from h A B C show ?thesis by blast
qed

lemma getMiddleware_methods: "getMiddleware (w\<lparr>methods := ms\<rparr>) act = getMiddleware w act"
  by (simp add: getMiddleware_def split: option.splits)

lemma setupModelRoutes_methods:
  "setupModelRoutes E (w\<lparr>methods := ms\<rparr>) = setupModelRoutes E w"
  by (simp add: setupModelRoutes_def model_def modelCall_def getStatics_def getMiddleware_methods
           split: sum.splits)

lemma setupModelRoutes_targets:
  "setupModelRoutes E w = Inr routes \<Longrightarrow> r \<in> set routes \<Longrightarrow> r_target r = ToCallStatic n
     \<Longrightarrow> n \<in> name ` set (statics w)"
  by (auto simp: setupModelRoutes_def mkRoute_def getStatics_def Let_def split: sum.splits)

text \<open>
  C9. The \<open>static(m)\<close> shortcut calls \<open>exposeMethod\<close>: for \<open>m\<close> naming a
  function of the model it appends the descriptor to the list read by \<open>getMethods\<close>
  and leaves the list read by \<open>getStatics\<close> as it was, so the routes assembled are
  the same as before, and none of them calls the method when no descriptor of the statics
  list names it.
\<close>

theorem static_shortcut_exposes_instance_method:
  "model E w JUndefined = Inr h \<Longrightarrow> model_prop E h (name (toDescriptor m)) = Some f \<Longrightarrow>
    static E m w = exposeMethod E m w
    \<and> static E m w = Inr (w\<lparr>methods := methods w @ [toDescriptor m]\<rparr>)
    \<and> getMethods (w\<lparr>methods := methods w @ [toDescriptor m]\<rparr>) = getMethods w @ [toDescriptor m]
    \<and> getStatics (w\<lparr>methods := methods w @ [toDescriptor m]\<rparr>) = getStatics w
    \<and> setupModelRoutes E (w\<lparr>methods := methods w @ [toDescriptor m]\<rparr>) = setupModelRoutes E w
    \<and> (\<forall>routes. setupModelRoutes E (w\<lparr>methods := methods w @ [toDescriptor m]\<rparr>) = Inr routes
          \<and> name (toDescriptor m) \<notin> name ` set (getStatics w)
          \<longrightarrow> (\<forall>r\<in>set routes. r_target r \<noteq> ToCallStatic (name (toDescriptor m))))"
proof -
  assume h: "model E w JUndefined = Inr h" and f: "model_prop E h (name (toDescriptor m)) = Some f"
  let ?w' = "w\<lparr>methods := methods w @ [toDescriptor m]\<rparr>"
  have 1: "static E m w = exposeMethod E m w"
    by (simp add: static_def)
  have 2: "static E m w = Inr ?w'"
    using h f by (simp add: static_def exposeMethod_def Let_def)
  have 3: "getMethods ?w' = getMethods w @ [toDescriptor m]" "getStatics ?w' = getStatics w"
    by (simp_all add: getMethods_def getStatics_def)
  have 4: "setupModelRoutes E ?w' = setupModelRoutes E w"
    by (rule setupModelRoutes_methods)
  have 5: "\<forall>routes. setupModelRoutes E ?w' = Inr routes
          \<and> name (toDescriptor m) \<notin> name ` set (getStatics w)
          \<longrightarrow> (\<forall>r\<in>set routes. r_target r \<noteq> ToCallStatic (name (toDescriptor m)))"
    using setupModelRoutes_targets [of E w] unfolding 4 getStatics_def by blast
  from 1 2 3 4 5 show ?thesis by blast
qed

theorem static_shortcut_exposes_instance_method_witness:
  "static testEnv (MethodName ''exposedStaticMethod2'') testWrapper
     = Inr (testWrapper\<lparr>methods := [\<lparr>name = ''exposedStaticMethod2'', exposeName = ''exposedStaticMethod2''\<rparr>]\<rparr>)
   \<and> getStatics (testWrapper\<lparr>methods := [\<lparr>name = ''exposedStaticMethod2'', exposeName = ''exposedStaticMethod2''\<rparr>]\<rparr>)
     = [\<lparr>name = ''exposedStaticMethod'', exposeName = ''exposedStaticMethod''\<rparr>]
   \<and> map (\<lambda>r. (r_verb r, r_path r, r_target r))
        (projr (setupModelRoutes testEnv
           (testWrapper\<lparr>methods := [\<lparr>name = ''exposedStaticMethod2'', exposeName = ''exposedStaticMethod2''\<rparr>]\<rparr>)))
     = [(POST, ''/tests/exposedStaticMethod'', ToCallStatic ''exposedStaticMethod''),
        (OPTIONS, ''/tests'', ToOptions),
        (GET, ''/tests/count'', ToCount),
        (GET, ''/tests/:id'', ToFindOne),
        (GET, ''/tests'', ToFind),
        (POST, ''/tests'', ToCreate),
        (POST, ''/tests/:id'', ToUpdate),
        (PUT, ''/tests'', ToCreate),
        (DELETE, ''/tests/:id'', ToDelete)]"
proof -
  have f: "model_prop testEnv (JObj [(''modelName'', JStr ''Test'')])
             (name (toDescriptor (MethodName ''exposedStaticMethod2''))) = Some exposedStaticMethod"
    by (simp add: testEnv_def testStatics_def)
  have ms: "methods testWrapper = []" 
    and st: "statics testWrapper = [\<lparr>name = ''exposedStaticMethod'', exposeName = ''exposedStaticMethod''\<rparr>]"
    by (simp_all add: testWrapper_def ModelWrapper_def)
  have routes: "map (\<lambda>r. (r_verb r, r_path r, r_target r)) (projr (setupModelRoutes testEnv testWrapper))
     = [(POST, ''/tests/exposedStaticMethod'', ToCallStatic ''exposedStaticMethod''),
        (OPTIONS, ''/tests'', ToOptions),
        (GET, ''/tests/count'', ToCount),
        (GET, ''/tests/:id'', ToFindOne),
        (GET, ''/tests'', ToFind),
        (POST, ''/tests'', ToCreate),
        (POST, ''/tests/:id'', ToUpdate),
        (PUT, ''/tests'', ToCreate),
        (DELETE, ''/tests/:id'', ToDelete)]"
    by (simp add: setupModelRoutes_def testWrapper_model getStatics_def st mkRoute_def
          testEnv_collectionName Let_def)
  note T = static_shortcut_exposes_instance_method [OF testWrapper_model f]
  have a: "static testEnv (MethodName ''exposedStaticMethod2'') testWrapper
     = Inr (testWrapper\<lparr>methods := [\<lparr>name = ''exposedStaticMethod2'', exposeName = ''exposedStaticMethod2''\<rparr>]\<rparr>)"
    using T [THEN conjunct2, THEN conjunct1] by (simp add: ms)
  have b: "getStatics (testWrapper\<lparr>methods := [\<lparr>name = ''exposedStaticMethod2'', exposeName = ''exposedStaticMethod2''\<rparr>]\<rparr>)
     = [\<lparr>name = ''exposedStaticMethod'', exposeName = ''exposedStaticMethod''\<rparr>]"
    using T [THEN conjunct2, THEN conjunct2, THEN conjunct2, THEN conjunct1]
    by (simp add: ms st getStatics_def)
  have c: "setupModelRoutes testEnv
           (testWrapper\<lparr>methods := [\<lparr>name = ''exposedStaticMethod2'', exposeName = ''exposedStaticMethod2''\<rparr>]\<rparr>)
     = setupModelRoutes testEnv testWrapper"
    using T [THEN conjunct2, THEN conjunct2, THEN conjunct2, THEN conjunct2, THEN conjunct1]
    by (simp add: ms)
  show ?thesis
    unfolding c using a b routes by simp
qed

section \<open>Properties of the route handlers\<close>

lemmas step_defs = respond_def andThen_def runHooks_def call_def ok_def failWith_def lift_def

lemma initModel_events:
  "initModel E w rq rs = (l, r) \<Longrightarrow> ev \<in> set l \<Longrightarrow> initEvent ev"
  by (auto simp: initModel_def step_defs modelCall_def initEvent_def Let_def
           split: sum.splits prod.splits if_splits)

lemma instanceof_Object_js_not [simp]: "instanceof_Object (js_not v) = False"
  by (simp add: js_not_def)

lemma create_array:
  "instanceof_Array (req_body rq) \<Longrightarrow> create E w rq rs = \<lparr>events = [], outcome = Next OnlyObjectsAllowed\<rparr>"
  by (simp add: create_def)

lemma initModel_nonempty: "\<exists>l r. initModel E w rq rs = (Hooks Pre ''init'' # l, r)"
  by (auto simp: initModel_def step_defs split: sum.splits prod.splits)

lemma create_not_array_events:
  "\<not> instanceof_Array (req_body rq) \<Longrightarrow> \<exists>l. events (create E w rq rs) = Hooks Pre ''init'' # l"
  using initModel_nonempty [of E w rq rs]
  by (auto simp: create_def step_defs split: sum.splits prod.splits)

lemma create_rejects_arrays_only:
  "events (create E w rq rs) = [] \<longleftrightarrow> instanceof_Array (req_body rq)"
  using create_not_array_events [of rq E w rs] create_array [of rq E w rs]
  by (cases "instanceof_Array (req_body rq)") auto

text \<open>
  C4. When \<open>findOne\<close> has made its lookup: if the mapper answers null (any falsy
  value), the handler forwards the \<open>NotFoundError\<close>, whose status code is 404 and whose
  message is \<open>Document Not Found\<close>, to the error channel, sends nothing, and makes no
  post-\<open>findOne\<close> dispatch; if the mapper answers a document, the post-\<open>findOne\<close>
  hooks are run on it and the document, as the hooks leave it, is sent. (A hook that
  throws ends the request: its error is forwarded in place of the response.)
\<close>

theorem findOne_not_found_policy:
  "Call (FindOne m flt prj pop) \<in> set (events (findOne E w rq rs)) \<Longrightarrow>
    (\<forall>doc. mapper E (FindOne m flt prj pop) = Inr doc \<and> \<not> truthy doc \<longrightarrow>
        outcome (findOne E w rq rs) = Next NotFoundError
        \<and> err_statusCode NotFoundError = Some 404
        \<and> err_message NotFoundError = ''Document Not Found''
        \<and> Hooks Post ''findOne'' \<notin> set (events (findOne E w rq rs)))
    \<and> (\<forall>doc. mapper E (FindOne m flt prj pop) = Inr doc \<and> truthy doc \<longrightarrow>
        Hooks Post ''findOne'' \<in> set (events (findOne E w rq rs))
        \<and> (\<exists>a. h_data a = doc
              \<and> (case applyHooks w Post ''findOne'' a of
                    Inl e \<Rightarrow> outcome (findOne E w rq rs) = Next e
                  | Inr a' \<Rightarrow> outcome (findOne E w rq rs) = Sent (h_data a'))))"
proof -
  assume c: "Call (FindOne m flt prj pop) \<in> set (events (findOne E w rq rs))"
  obtain l r where i: "initModel E w rq rs = (l, r)" by (cases "initModel E w rq rs")
  have ni: "\<And>ev. ev \<in> set l \<Longrightarrow> initEvent ev"
    using initModel_events [OF i] .
  let ?q = "\<lambda>a0. parseQuery (builtin E) (JObj (req_query (h_req a0)))"
  from c i ni obtain a0 f0 q a1 where
        r: "r = Inr a0"
    and f0: "setp ''_id'' (getp (JObj (req_params (h_req a0))) ''id'') (getp (?q a0) ''filter'') = Inr f0"
    and q: "setp ''filter'' f0 (?q a0) = Inr q"
    and a1: "applyHooks w Pre ''findOne'' (a0\<lparr>h_data := q\<rparr>) = Inr a1"
    and m: "m = h_data a0" "flt = getp (h_data a1) ''filter''"
           "prj = getp (h_data a1) ''projection''" "pop = populateArg (h_data a1)"
    by (auto simp: findOne_def step_defs Let_def initEvent_def
             split: sum.splits prod.splits if_splits)
  have nopost: "Hooks Post ''findOne'' \<notin> set l"
    using ni by (auto simp: initEvent_def)
  have res: "findOne E w rq rs =
      (case mapper E (FindOne m flt prj pop) of
         Inl e \<Rightarrow> \<lparr>events = l @ [Hooks Pre ''findOne'', Call (FindOne m flt prj pop)], outcome = Next e\<rparr>
       | Inr doc \<Rightarrow>
          if \<not> truthy doc
          then \<lparr>events = l @ [Hooks Pre ''findOne'', Call (FindOne m flt prj pop)],
                outcome = Next NotFoundError\<rparr>
          else (case applyHooks w Post ''findOne'' (a1\<lparr>h_data := doc\<rparr>) of
                  Inl e \<Rightarrow> \<lparr>events = l @ [Hooks Pre ''findOne'', Call (FindOne m flt prj pop),
                                          Hooks Post ''findOne''], outcome = Next e\<rparr>
                | Inr a2 \<Rightarrow> \<lparr>events = l @ [Hooks Pre ''findOne'', Call (FindOne m flt prj pop),
                                          Hooks Post ''findOne''], outcome = Sent (h_data a2)\<rparr>))"
    using i r f0 q a1 m
    by (auto simp: findOne_def step_defs Let_def split: sum.splits prod.splits if_splits)
  have absent: "\<forall>doc. mapper E (FindOne m flt prj pop) = Inr doc \<and> \<not> truthy doc \<longrightarrow>
        outcome (findOne E w rq rs) = Next NotFoundError
        \<and> err_statusCode NotFoundError = Some 404
        \<and> err_message NotFoundError = ''Document Not Found''
        \<and> Hooks Post ''findOne'' \<notin> set (events (findOne E w rq rs))"
    using nopost by (auto simp: res NotFoundError_def mkError_def)
  have present: "\<forall>doc. mapper E (FindOne m flt prj pop) = Inr doc \<and> truthy doc \<longrightarrow>
        Hooks Post ''findOne'' \<in> set (events (findOne E w rq rs))
        \<and> (\<exists>a. h_data a = doc
              \<and> (case applyHooks w Post ''findOne'' a of
                    Inl e \<Rightarrow> outcome (findOne E w rq rs) = Next e
                  | Inr a' \<Rightarrow> outcome (findOne E w rq rs) = Sent (h_data a')))"
  proof (intro allI impI, elim conjE)
    fix doc assume d: "mapper E (FindOne m flt prj pop) = Inr doc" "truthy doc"
    have "h_data (a1\<lparr>h_data := doc\<rparr>) = doc
              \<and> (case applyHooks w Post ''findOne'' (a1\<lparr>h_data := doc\<rparr>) of
                    Inl e \<Rightarrow> outcome (findOne E w rq rs) = Next e
                  | Inr a' \<Rightarrow> outcome (findOne E w rq rs) = Sent (h_data a'))"
      using d by (simp add: res split: sum.splits)
    moreover have "Hooks Post ''findOne'' \<in> set (events (findOne E w rq rs))"
      using d by (simp add: res split: sum.splits)
    ultimately show "Hooks Post ''findOne'' \<in> set (events (findOne E w rq rs))
        \<and> (\<exists>a. h_data a = doc
              \<and> (case applyHooks w Post ''findOne'' a of
                    Inl e \<Rightarrow> outcome (findOne E w rq rs) = Next e
                  | Inr a' \<Rightarrow> outcome (findOne E w rq rs) = Sent (h_data a')))"
      by blast
  qed
  from absent present show ?thesis by blast
qed

lemma testEnv_sel:
  "builtin testEnv = testBuiltins" "mapper testEnv = testMapper"
  "schema_statics testEnv m = testStatics" "model_prop testEnv m = testStatics"
  "collectionName testEnv m = ''tests''"
  by (simp_all add: testEnv_def)

lemmas eval_defs =
  step_defs initModel_def applyHooks_def hooksToApply_def modelCall_def model_def
  testEnv_sel testMapper_def testBuiltins_def testReq_def testDocs_def matches_def sameValue_def ownProps_def
  testNumber_def parseQuery_def parseQueryFilter_def parseQueryPopulate_def
  parseQueryProjection_def parseQueryOptions_unfold populateArg_def js_or_def
  hookedWrapper_def restrictDelete_def post_def pre_def setHooks_def ModelWrapper_def setField_def testModel_def
  findById_def document_def assign_def Let_def

lemma hooked_absent:
  "findOne testEnv hookedWrapper (testReq JUndefined [] [(''id'', JStr ''7'')]) JNull
    = \<lparr>events = [Hooks Pre ''init'', Call (DefaultModel ''Test''), Hooks Post ''init'',
                  Hooks Pre ''findOne'',
                  Call (FindOne testModel (JObj [(''_id'', JStr ''7'')]) JNull JUndefined)],
        outcome = Next NotFoundError\<rparr>"
  by (simp add: findOne_def eval_defs)

lemma hooked_present:
  "findOne testEnv hookedWrapper (testReq JUndefined [] [(''id'', JStr ''1'')]) JNull
    = \<lparr>events = [Hooks Pre ''init'', Call (DefaultModel ''Test''), Hooks Post ''init'',
                  Hooks Pre ''findOne'',
                  Call (FindOne testModel (JObj [(''_id'', JStr ''1'')]) JNull JUndefined),
                  Hooks Post ''findOne''],
        outcome = Sent (JObj [(''name'', JStr ''someName''), (''_id'', JNum 1),
                              (''content'', JStr ''from post findOne hook'')])\<rparr>"
  by (simp add: findOne_def eval_defs)


theorem findOne_not_found_policy_witness:
  "Call (FindOne testModel (JObj [(''_id'', JStr ''7'')]) JNull JUndefined)
     \<in> set (events (findOne testEnv hookedWrapper (testReq JUndefined [] [(''id'', JStr ''7'')]) JNull))
   \<and> mapper testEnv (FindOne testModel (JObj [(''_id'', JStr ''7'')]) JNull JUndefined) = Inr JNull
   \<and> outcome (findOne testEnv hookedWrapper (testReq JUndefined [] [(''id'', JStr ''7'')]) JNull)
       = Next NotFoundError
   \<and> Hooks Post ''findOne''
       \<notin> set (events (findOne testEnv hookedWrapper (testReq JUndefined [] [(''id'', JStr ''7'')]) JNull))
   \<and> Call (FindOne testModel (JObj [(''_id'', JStr ''1'')]) JNull JUndefined)
       \<in> set (events (findOne testEnv hookedWrapper (testReq JUndefined [] [(''id'', JStr ''1'')]) JNull))
   \<and> Hooks Post ''findOne''
       \<in> set (events (findOne testEnv hookedWrapper (testReq JUndefined [] [(''id'', JStr ''1'')]) JNull))
   \<and> outcome (findOne testEnv hookedWrapper (testReq JUndefined [] [(''id'', JStr ''1'')]) JNull)
       = Sent (JObj [(''name'', JStr ''someName''), (''_id'', JNum 1),
                     (''content'', JStr ''from post findOne hook'')])"
proof -
  let ?r7 = "findOne testEnv hookedWrapper (testReq JUndefined [] [(''id'', JStr ''7'')]) JNull"
  let ?r1 = "findOne testEnv hookedWrapper (testReq JUndefined [] [(''id'', JStr ''1'')]) JNull"
  let ?c7 = "FindOne testModel (JObj [(''_id'', JStr ''7'')]) JNull JUndefined"
  let ?c1 = "FindOne testModel (JObj [(''_id'', JStr ''1'')]) JNull JUndefined"
  let ?doc = "JObj [(''name'', JStr ''someName''), (''_id'', JNum 1)]"
  have c7: "Call ?c7 \<in> set (events ?r7)" by (simp add: hooked_absent)
  have m7: "mapper testEnv ?c7 = Inr JNull" by (simp add: eval_defs)
  have c1: "Call ?c1 \<in> set (events ?r1)" by (simp add: hooked_present)
  have m1: "mapper testEnv ?c1 = Inr ?doc" by (simp add: eval_defs)
  have absent: "outcome ?r7 = Next NotFoundError \<and> Hooks Post ''findOne'' \<notin> set (events ?r7)"
    using findOne_not_found_policy [OF c7] m7 by simp
  from findOne_not_found_policy [OF c1] m1
  obtain a where p: "Hooks Post ''findOne'' \<in> set (events ?r1)" and a: "h_data a = ?doc"
    and o: "(case applyHooks hookedWrapper Post ''findOne'' a of
               Inl e \<Rightarrow> outcome ?r1 = Next e
             | Inr a' \<Rightarrow> outcome ?r1 = Sent (h_data a'))"
    by auto
  have "applyHooks hookedWrapper Post ''findOne'' a
          = Inr (a\<lparr>h_data := JObj [(''name'', JStr ''someName''), (''_id'', JNum 1),
                                     (''content'', JStr ''from post findOne hook'')]\<rparr>)"
    by (simp add: eval_defs a)
  with o have present: "outcome ?r1 = Sent (JObj [(''name'', JStr ''someName''), (''_id'', JNum 1),
                                     (''content'', JStr ''from post findOne hook'')])"
    by simp
  from c7 m7 absent c1 p present show ?thesis by blast
qed

text \<open>
  C1. The specification asks that a body that is an array, or is not an object, be refused with the
  400 error before any hook runs and any mapper call is made. The guard of \<open>create\<close>
  refuses arrays only (\<open>create_rejects_arrays_only\<close>): its second disjunct,
  \<open>!req.body instanceof Object\<close>, is \<open>(!req.body) instanceof Object\<close> and never
  holds. On the string body \<open>"abc"\<close> the handler runs the init and create hooks and
  hands the string to the mapper's insert.
\<close>

theorem create_string_body_not_rejected:
  "create testEnv (ModelWrapper ''Test'') (testReq (JStr ''abc'') [] []) JNull
     = \<lparr>events = [Hooks Pre ''init'', Call (DefaultModel ''Test''), Hooks Post ''init'',
                   Hooks Pre ''create'', Call (Create testModel (JStr ''abc'')),
                   Hooks Post ''create''],
         outcome = Sent (JStr ''abc'')\<rparr>"
  by (simp add: create_def eval_defs)

text \<open>
  What \<open>update\<close> and \<open>delete\<close> do when the lookup by id finds no document:
  the handler forwards the error of \<open>findById\<close> to the error channel, makes no pre
  or post dispatch for the action, and no save or remove call. The error has the name
  \<open>ModelNotFound\<close>, the message \<open>Not Found\<close>, and its 404 under \<open>status\<close>.
\<close>

theorem update_delete_not_found:
  "(\<forall>m i doc.
      Call (FindOne m (JObj [(''_id'', i)]) JUndefined JUndefined) \<in> set (events (update E w rq rs))
      \<and> mapper E (FindOne m (JObj [(''_id'', i)]) JUndefined JUndefined) = Inr doc \<and> \<not> truthy doc
      \<longrightarrow> outcome (update E w rq rs) = Next ModelNotFound
          \<and> Hooks Pre ''update'' \<notin> set (events (update E w rq rs))
          \<and> Hooks Post ''update'' \<notin> set (events (update E w rq rs))
          \<and> (\<forall>d. Call (Save d) \<notin> set (events (update E w rq rs))))
   \<and> (\<forall>m i doc.
      Call (FindOne m (JObj [(''_id'', i)]) JUndefined JUndefined) \<in> set (events (delete E w rq rs))
      \<and> mapper E (FindOne m (JObj [(''_id'', i)]) JUndefined JUndefined) = Inr doc \<and> \<not> truthy doc
      \<longrightarrow> outcome (delete E w rq rs) = Next ModelNotFound
          \<and> Hooks Pre ''delete'' \<notin> set (events (delete E w rq rs))
          \<and> Hooks Post ''delete'' \<notin> set (events (delete E w rq rs))
          \<and> (\<forall>d. Call (Remove d) \<notin> set (events (delete E w rq rs))))
   \<and> err_status ModelNotFound = Some 404
   \<and> err_statusCode ModelNotFound = None
   \<and> err_message ModelNotFound = ''Not Found''
   \<and> err_name ModelNotFound = ''ModelNotFound''"
proof -
  obtain l r where i: "initModel E w rq rs = (l, r)" by (cases "initModel E w rq rs")
  have ni: "\<And>ev. ev \<in> set l \<Longrightarrow> initEvent ev"
    using initModel_events [OF i] .
  have u: "\<forall>m i doc.
      Call (FindOne m (JObj [(''_id'', i)]) JUndefined JUndefined) \<in> set (events (update E w rq rs))
      \<and> mapper E (FindOne m (JObj [(''_id'', i)]) JUndefined JUndefined) = Inr doc \<and> \<not> truthy doc
      \<longrightarrow> outcome (update E w rq rs) = Next ModelNotFound
          \<and> Hooks Pre ''update'' \<notin> set (events (update E w rq rs))
          \<and> Hooks Post ''update'' \<notin> set (events (update E w rq rs))
          \<and> (\<forall>d. Call (Save d) \<notin> set (events (update E w rq rs)))"
    using i ni
    by (auto simp: update_def findById_def step_defs initEvent_def
             split: sum.splits prod.splits if_splits)
  have d: "\<forall>m i doc.
      Call (FindOne m (JObj [(''_id'', i)]) JUndefined JUndefined) \<in> set (events (delete E w rq rs))
      \<and> mapper E (FindOne m (JObj [(''_id'', i)]) JUndefined JUndefined) = Inr doc \<and> \<not> truthy doc
      \<longrightarrow> outcome (delete E w rq rs) = Next ModelNotFound
          \<and> Hooks Pre ''delete'' \<notin> set (events (delete E w rq rs))
          \<and> Hooks Post ''delete'' \<notin> set (events (delete E w rq rs))
          \<and> (\<forall>d. Call (Remove d) \<notin> set (events (delete E w rq rs)))"
    using i ni
    by (auto simp: delete_def findById_def step_defs initEvent_def
             split: sum.splits prod.splits if_splits)
  have e: "err_status ModelNotFound = Some 404 \<and> err_statusCode ModelNotFound = None
           \<and> err_message ModelNotFound = ''Not Found'' \<and> err_name ModelNotFound = ''ModelNotFound''"
    by (simp add: ModelNotFound_def mkError_def)
  from u d e show ?thesis by blast
qed

lemma hooked_update_absent:
  "update testEnv hookedWrapper (testReq (JObj [(''name'', JStr ''newName'')]) [] [(''id'', JStr ''7'')]) JNull
    = \<lparr>events = [Hooks Pre ''init'', Call (DefaultModel ''Test''), Hooks Post ''init'',
                  Call (FindOne testModel (JObj [(''_id'', JStr ''7'')]) JUndefined JUndefined)],
        outcome = Next ModelNotFound\<rparr>"
  by (simp add: update_def eval_defs)

lemma hooked_delete_absent:
  "delete testEnv hookedWrapper (testReq JUndefined [] [(''id'', JStr ''7'')]) JNull
    = \<lparr>events = [Hooks Pre ''init'', Call (DefaultModel ''Test''), Hooks Post ''init'',
                  Call (FindOne testModel (JObj [(''_id'', JStr ''7'')]) JUndefined JUndefined)],
        outcome = Next ModelNotFound\<rparr>"
  by (simp add: delete_def eval_defs)

lemma hooked_delete_present:
  "delete testEnv hookedWrapper (testReq JUndefined [] [(''id'', JStr ''1'')]) JNull
    = \<lparr>events = [Hooks Pre ''init'', Call (DefaultModel ''Test''), Hooks Post ''init'',
                  Call (FindOne testModel (JObj [(''_id'', JStr ''1'')]) JUndefined JUndefined),
                  Hooks Pre ''delete''],
        outcome = Next (mkError ''Error'' ''Oops!'')\<rparr>"
  by (simp add: delete_def eval_defs)

theorem update_delete_not_found_witness:
  "Call (FindOne testModel (JObj [(''_id'', JStr ''7'')]) JUndefined JUndefined)
     \<in> set (events (update testEnv hookedWrapper
                 (testReq (JObj [(''name'', JStr ''newName'')]) [] [(''id'', JStr ''7'')]) JNull))
   \<and> mapper testEnv (FindOne testModel (JObj [(''_id'', JStr ''7'')]) JUndefined JUndefined) = Inr JNull
   \<and> outcome (update testEnv hookedWrapper
                 (testReq (JObj [(''name'', JStr ''newName'')]) [] [(''id'', JStr ''7'')]) JNull)
       = Next ModelNotFound
   \<and> Hooks Pre ''update''
       \<notin> set (events (update testEnv hookedWrapper
                 (testReq (JObj [(''name'', JStr ''newName'')]) [] [(''id'', JStr ''7'')]) JNull))
   \<and> Call (FindOne testModel (JObj [(''_id'', JStr ''7'')]) JUndefined JUndefined)
       \<in> set (events (delete testEnv hookedWrapper (testReq JUndefined [] [(''id'', JStr ''7'')]) JNull))
   \<and> outcome (delete testEnv hookedWrapper (testReq JUndefined [] [(''id'', JStr ''7'')]) JNull)
       = Next ModelNotFound
   \<and> Hooks Pre ''delete''
       \<notin> set (events (delete testEnv hookedWrapper (testReq JUndefined [] [(''id'', JStr ''7'')]) JNull))"
proof -
  let ?u = "update testEnv hookedWrapper
              (testReq (JObj [(''name'', JStr ''newName'')]) [] [(''id'', JStr ''7'')]) JNull"
  let ?d = "delete testEnv hookedWrapper (testReq JUndefined [] [(''id'', JStr ''7'')]) JNull"
  let ?c = "FindOne testModel (JObj [(''_id'', JStr ''7'')]) JUndefined JUndefined"
  have cu: "Call ?c \<in> set (events ?u)" by (simp add: hooked_update_absent)
  have cd: "Call ?c \<in> set (events ?d)" by (simp add: hooked_delete_absent)
  have m: "mapper testEnv ?c = Inr JNull" by (simp add: eval_defs)
  note T = update_delete_not_found [of testEnv hookedWrapper]
  have u: "outcome ?u = Next ModelNotFound \<and> Hooks Pre ''update'' \<notin> set (events ?u)"
    using T [THEN conjunct1, rule_format, of testModel "JStr ''7''" _ _ JNull] cu m by simp
  have d: "outcome ?d = Next ModelNotFound \<and> Hooks Pre ''delete'' \<notin> set (events ?d)"
    using T [THEN conjunct2, THEN conjunct1, rule_format, of testModel "JStr ''7''" _ _ JNull] cd m
    by simp
  from cu m u cd d show ?thesis by blast
qed

text \<open>
  C5. The specification asks that \<open>update\<close> and \<open>delete\<close> on an absent id yield
  the 404 error that \<open>findOne\<close> yields. For the id 7, which no document has, all
  three forward an error and run no hook of the action; but the error of \<open>findOne\<close>
  (like the one of \<open>create\<close>) carries its status under \<open>statusCode\<close>, and the
  error of \<open>findById\<close> carries 404 under \<open>status\<close> and nothing under
  \<open>statusCode\<close>. The error handler of the repository's test application, which reads
  \<open>statusCode\<close>, answers the miss of \<open>findOne\<close> with 404 and the miss of
  \<open>update\<close> and \<open>delete\<close> with 400.
\<close>

theorem update_delete_miss_status_not_under_statusCode:
  "outcome (update testEnv hookedWrapper
              (testReq (JObj [(''name'', JStr ''newName'')]) [] [(''id'', JStr ''7'')]) JNull)
     = Next ModelNotFound
   \<and> outcome (delete testEnv hookedWrapper (testReq JUndefined [] [(''id'', JStr ''7'')]) JNull)
     = Next ModelNotFound
   \<and> outcome (findOne testEnv hookedWrapper (testReq JUndefined [] [(''id'', JStr ''7'')]) JNull)
     = Next NotFoundError
   \<and> err_status ModelNotFound = Some 404
   \<and> err_statusCode ModelNotFound = None
   \<and> err_statusCode NotFoundError = Some 404
   \<and> err_statusCode OnlyObjectsAllowed = Some 400
   \<and> fst (errorHandler NotFoundError) = 404
   \<and> fst (errorHandler ModelNotFound) = 400"
  by (simp add: hooked_update_absent hooked_delete_absent hooked_absent errorHandler_def
                ModelNotFound_def NotFoundError_def OnlyObjectsAllowed_def mkError_def)
































lemma getp_setp:
  "setp k v d = Inr d' \<Longrightarrow> getp d' f = (if f = k \<and> (\<exists>kvs. d = JObj kvs) then v else getp d f)"
  by (cases d) (auto simp: update_conv')

lemma removeHidden_getp:
  "removeHidden hs doc = Inr d' \<Longrightarrow> getp d' f = (if f \<in> set hs then JUndefined else getp doc f)"
proof (induction hs arbitrary: doc)
  case Nil
  then show ?case by simp
next
  case (Cons h hs)
  from Cons.prems obtain d1 where 1: "setp h JUndefined doc = Inr d1" and 2: "removeHidden hs d1 = Inr d'"
    by (auto split: sum.splits)
  have "getp d1 f = (if f = h then JUndefined else getp doc f)"
    using getp_setp [OF 1, of f] by (cases doc) auto
  with Cons.IH [OF 2] show ?case by auto
qed

lemma removeHidden_cleared:
  "removeHidden hs doc = Inr d' \<Longrightarrow> list_all (\<lambda>f. getp d' f = JUndefined) hs"
  by (simp add: list_all_iff removeHidden_getp)

lemma forEach_removeHidden_cleared:
  "forEach_removeHidden hs ds = Inr ds' \<Longrightarrow>
     list_all (\<lambda>x. list_all (\<lambda>f. getp x f = JUndefined) hs) ds'"
  by (induction ds arbitrary: ds') (auto split: sum.splits dest: removeHidden_cleared)

lemma removeHidden_not_array:
  "removeHidden hs doc = Inr d' \<Longrightarrow> \<not> instanceof_Array doc \<Longrightarrow> \<not> instanceof_Array d'"
proof (induction hs arbitrary: doc)
  case Nil
  then show ?case by simp
next
  case (Cons h hs)
  from Cons.prems obtain d1 where 1: "setp h JUndefined doc = Inr d1" and 2: "removeHidden hs d1 = Inr d'"
    by (auto split: sum.splits)
  from 1 Cons.prems(2) have "\<not> instanceof_Array d1" by (cases doc) auto
  with Cons.IH [OF 2] show ?case by simp
qed

lemma cleared_not_array:
  "\<not> instanceof_Array d \<Longrightarrow> cleared hs d = list_all (\<lambda>f. getp d f = JUndefined) hs"
  by (cases d) (auto simp: cleared_def)

lemma cleared_falsy: "\<not> truthy d \<Longrightarrow> cleared hs d"
  by (cases d) (auto simp: cleared_def list_all_iff)

lemma cleared_nil: "cleared [] d"
  by (cases d) (auto simp: cleared_def list_all_iff)

lemma hideFields_cleared: "hideFields hs d = Inr d' \<Longrightarrow> cleared hs d'"
proof (cases "truthy d \<and> length hs \<noteq> 0")
  case False
  assume "hideFields hs d = Inr d'"
  with False have "d' = d" by (auto simp: hideFields_def)
  with False show ?thesis by (auto simp: cleared_falsy cleared_nil)
next
  case True
  assume h: "hideFields hs d = Inr d'"
  show ?thesis
  proof (cases "instanceof_Array d")
    case True
    then obtain ds where d: "d = JArr ds" by (cases d) auto
    with h \<open>truthy d \<and> length hs \<noteq> 0\<close> obtain ds' where
      "forEach_removeHidden hs ds = Inr ds'" "d' = JArr ds'"
      by (auto simp: hideFields_def split: sum.splits)
    then show ?thesis
      by (simp add: cleared_def forEach_removeHidden_cleared)
  next
    case False
    with h \<open>truthy d \<and> length hs \<noteq> 0\<close> have r: "removeHidden hs d = Inr d'"
      by (cases d) (auto simp: hideFields_def)
    from removeHidden_not_array [OF r False] removeHidden_cleared [OF r]
    show ?thesis by (simp add: cleared_not_array)
  qed
qed

lemma filter_eq_distinct:
  "distinct xs \<Longrightarrow> filter (\<lambda>s. s = k) xs = (if k \<in> set xs then [k] else [])"
  by (induction xs) auto

lemma flatten_hiddenActions:
  "flatten hiddenActions = [''create'', ''find'', ''findOne'', ''delete'', ''update'']"
  by (simp add: hiddenActions_def)

lemma distinct_hiddenActions: "distinct [''create'', ''find'', ''findOne'', ''delete'', ''update'']"
  by simp

lemma hooksFor_hiddenActions:
  "hooksFor (addHook Post hiddenActions HideFields w0) ty k =
     hooksFor w0 ty k @
     (if ty = Post \<and> k \<in> set [''create'', ''find'', ''findOne'', ''delete'', ''update'']
      then [HideFields] else [])"
  unfolding hooksFor_addHook flatten_hiddenActions filter_eq_distinct [OF distinct_hiddenActions]
  by simp

lemma addHook_hidden: "hidden (addHook ty a cb w) = hidden w"
proof (induction ty a cb w rule: addHook.induct)
  case (1 ty s cb w)
  show ?case by (simp add: setHooks_def Let_def)
next
  case (2 ty xs cb w)
  have "\<And>w1. hidden (fold (\<lambda>a. addHook ty a cb) xs w1) = hidden w1"
  proof -
    fix w1
    have "\<forall>ys w1. set ys \<subseteq> set xs \<longrightarrow> hidden (fold (\<lambda>a. addHook ty a cb) ys w1) = hidden w1"
    proof (intro allI)
      fix ys w1
      show "set ys \<subseteq> set xs \<longrightarrow> hidden (fold (\<lambda>a. addHook ty a cb) ys w1) = hidden w1"
        by (induction ys arbitrary: w1) (use 2 in auto)
    qed
    then show "hidden (fold (\<lambda>a. addHook ty a cb) xs w1) = hidden w1" by blast
  qed
  then show ?case by (simp add: Let_def setHooks_def)
qed

lemma setupModel_wrapper:
  "setupModel E w0 = Inr (w, routes) \<Longrightarrow> w = addHook Post hiddenActions HideFields w0"
  by (auto simp: setupModel_def Let_def split: sum.splits)

lemma applyHooks_hidden_last:
  assumes w: "w = addHook Post hiddenActions HideFields w0"
      and act: "act \<in> set [''create'', ''find'', ''findOne'', ''delete'', ''update'']"
      and run: "applyHooks w Post act a = Inr a'"
  shows "\<exists>a1. cleared (hidden w) (h_data a1)
           \<and> forEach_hooks w (hooksFor w Post ''all'') a1 = Inr a'"
proof -
  have "''all'' \<notin> set [''create'', ''find'', ''findOne'', ''delete'', ''update'']"
    by simp
  then have list: "hooksToApply w Post act = (hooksFor w0 Post act @ [HideFields]) @ hooksFor w Post ''all''"
    using act unfolding w hooksToApply_hooksFor hooksFor_hiddenActions by (simp only: if_True if_False simp_thms append_Nil2 append_assoc)
  from run obtain a1 where 1: "forEach_hooks w (hooksFor w0 Post act @ [HideFields]) a = Inr a1"
    and 2: "forEach_hooks w (hooksFor w Post ''all'') a1 = Inr a'"
    unfolding applyHooks_def list forEach_hooks_append by (auto split: sum.splits)
  from 1 obtain a0 where "callHook w HideFields a0 = Inr a1"
    unfolding forEach_hooks_append by (auto split: sum.splits)
  then have "cleared (hidden w) (h_data a1)"
    by (auto split: sum.splits dest: hideFields_cleared)
  with 2 show ?thesis by blast
qed

lemma respond_Sent:
  "outcome (respond sync chain) = Sent d \<longleftrightarrow>
     (\<exists>l s l'. sync = (l, Inr s) \<and> chain s = (l', Inr d))"
  by (auto simp: respond_def split: sum.splits prod.splits)

lemma andThen_Inr:
  "andThen m f = (l, Inr y) \<longleftrightarrow>
     (\<exists>l1 x l2. m = (l1, Inr x) \<and> f x = (l2, Inr y) \<and> l = l1 @ l2)"
  by (cases m) (auto simp: andThen_def split: sum.splits prod.splits)

lemma runHooks_Inr: "runHooks w ty act a = (l, Inr a') \<longleftrightarrow> l = [Hooks ty act] \<and> applyHooks w ty act a = Inr a'"
  by (auto simp: runHooks_def)

lemma ok_Inr: "ok x = (l, Inr y) \<longleftrightarrow> l = [] \<and> y = x"
  by (auto simp: ok_def)

lemma sent_create:
  "outcome (create E w rq rs) = Sent d \<Longrightarrow> \<exists>a a'. applyHooks w Post ''create'' a = Inr a' \<and> d = h_data a'"
  by (auto simp: create_def respond_Sent andThen_Inr runHooks_Inr ok_Inr split: if_splits)

lemma sent_find:
  "outcome (find E w rq rs) = Sent d \<Longrightarrow> \<exists>a a'. applyHooks w Post ''find'' a = Inr a' \<and> d = h_data a'"
  by (auto simp: find_def respond_Sent andThen_Inr runHooks_Inr ok_Inr Let_def split: if_splits)

lemma sent_findOne:
  "outcome (findOne E w rq rs) = Sent d \<Longrightarrow> \<exists>a a'. applyHooks w Post ''findOne'' a = Inr a' \<and> d = h_data a'"
  by (auto simp: findOne_def respond_Sent andThen_Inr runHooks_Inr ok_Inr Let_def failWith_def split: if_splits)

lemma sent_update:
  "outcome (update E w rq rs) = Sent d \<Longrightarrow> \<exists>a a'. applyHooks w Post ''update'' a = Inr a' \<and> d = h_data a'"
  by (auto simp: update_def respond_Sent andThen_Inr runHooks_Inr ok_Inr Let_def split: if_splits)

lemma sent_delete:
  "outcome (delete E w rq rs) = Sent d \<Longrightarrow> \<exists>a a'. applyHooks w Post ''delete'' a = Inr a' \<and> d = h_data a'"
  by (auto simp: delete_def respond_Sent andThen_Inr runHooks_Inr ok_Inr Let_def split: if_splits)

lemma callHook_no_hide: "h \<noteq> HideFields \<Longrightarrow> callHook w h a = callHook w' h a"
  by (cases h) auto

lemma forEach_hooks_no_hide:
  "HideFields \<notin> set hs \<Longrightarrow> forEach_hooks w hs a = forEach_hooks w' hs a"
proof (induction hs arbitrary: a)
  case Nil
  then show ?case by simp
next
  case (Cons h hs)
  then have "callHook w h a = callHook w' h a" by (auto intro: callHook_no_hide)
  with Cons show ?case by (auto split: sum.splits)
qed

lemma applyHooks_hidden_upd:
  "HideFields \<notin> set (hooksToApply w ty k) \<Longrightarrow>
     applyHooks (w\<lparr>hidden := hs\<rparr>) ty k a = applyHooks w ty k a"
  unfolding applyHooks_def
  by (simp add: hooksToApply_def forEach_hooks_no_hide [of _ "w\<lparr>hidden := hs\<rparr>" _ w])

lemma modelCall_hidden_upd: "modelCall (w\<lparr>hidden := hs\<rparr>) p = modelCall w p"
  by (simp add: modelCall_def Let_def cong: if_cong)

lemma count_hidden_upd:
  assumes "HideFields \<notin> set (hooksToApply w Pre ''init'')"
      and "HideFields \<notin> set (hooksToApply w Post ''init'')"
      and "HideFields \<notin> set (hooksToApply w Pre ''count'')"
      and "HideFields \<notin> set (hooksToApply w Post ''count'')"
  shows "count E (w\<lparr>hidden := hs\<rparr>) rq rs = count E w rq rs"
  using assms
  by (simp add: count_def initModel_def runHooks_def applyHooks_hidden_upd modelCall_hidden_upd)

lemma setupModel_no_hide:
  assumes w: "w = addHook Post hiddenActions HideFields w0"
      and user: "\<forall>ty k. HideFields \<notin> set (hooksFor w0 ty k)"
      and k: "k \<notin> set [''create'', ''find'', ''findOne'', ''delete'', ''update'']"
  shows "HideFields \<notin> set (hooksToApply w ty k)"
proof -
  have "''all'' \<notin> set [''create'', ''find'', ''findOne'', ''delete'', ''update'']"
    by simp
  then show ?thesis
    using user k unfolding w hooksToApply_hooksFor hooksFor_hiddenActions by simp
qed

text \<open>
  C3 (as amended). On a wrapper as router assembly leaves it, every document sent by
  \<open>create\<close>, \<open>find\<close>, \<open>findOne\<close>, \<open>update\<close> or \<open>delete\<close> is a
  payload on which every hidden field was set to \<open>undefined\<close> (in each element of an
  array, directly in a single document), as the \<open>(post, all)\<close> hooks, which run
  after the hiding, leave it; with no \<open>(post, all)\<close> hook every hidden field reads
  \<open>undefined\<close> in what is sent. When the wrapper had only callbacks of the user before
  assembly, the response of \<open>count\<close> is the same for every hidden list.
\<close>

theorem hidden_fields_cleared_before_catch_all:
  "setupModel E w0 = Inr (w, routes) \<Longrightarrow>
    (\<forall>t d. t \<in> {ToCreate, ToFind, ToFindOne, ToUpdate, ToDelete}
            \<and> outcome (handle E w t rq rs) = Sent d \<longrightarrow>
        (\<exists>a1 a2. cleared (hidden w) (h_data a1)
             \<and> forEach_hooks w (hooksFor w Post ''all'') a1 = Inr a2 \<and> d = h_data a2)
        \<and> (hooksFor w Post ''all'' = [] \<longrightarrow> cleared (hidden w) d))
    \<and> ((\<forall>ty k. HideFields \<notin> set (hooksFor w0 ty k)) \<longrightarrow>
          (\<forall>hs. count E (w\<lparr>hidden := hs\<rparr>) rq rs = count E w rq rs))"
proof -
  assume s: "setupModel E w0 = Inr (w, routes)"
  note w = setupModel_wrapper [OF s]
  have main: "\<exists>a1 a2. cleared (hidden w) (h_data a1)
             \<and> forEach_hooks w (hooksFor w Post ''all'') a1 = Inr a2 \<and> d = h_data a2"
    if t: "t \<in> {ToCreate, ToFind, ToFindOne, ToUpdate, ToDelete}"
      and o: "outcome (handle E w t rq rs) = Sent d" for t d
  proof -
    from t o obtain act a a' where act: "act \<in> set [''create'', ''find'', ''findOne'', ''delete'', ''update'']"
      and run: "applyHooks w Post act a = Inr a'" and d: "d = h_data a'"
    proof (elim insertE emptyE)
      assume "t = ToCreate"
      with o sent_create [of E w rq rs d] that show thesis by auto
    next
      assume "t = ToFind"
      with o sent_find [of E w rq rs d] that show thesis by auto
    next
      assume "t = ToFindOne"
      with o sent_findOne [of E w rq rs d] that show thesis by auto
    next
      assume "t = ToUpdate"
      with o sent_update [of E w rq rs d] that show thesis by auto
    next
      assume "t = ToDelete"
      with o sent_delete [of E w rq rs d] that show thesis by auto
    qed
    from applyHooks_hidden_last [OF w act run] d show ?thesis by blast
  qed
  have handlers: "\<forall>t d. t \<in> {ToCreate, ToFind, ToFindOne, ToUpdate, ToDelete}
            \<and> outcome (handle E w t rq rs) = Sent d \<longrightarrow>
        (\<exists>a1 a2. cleared (hidden w) (h_data a1)
             \<and> forEach_hooks w (hooksFor w Post ''all'') a1 = Inr a2 \<and> d = h_data a2)
        \<and> (hooksFor w Post ''all'' = [] \<longrightarrow> cleared (hidden w) d)"
  proof (intro allI impI, elim conjE)
    fix t d
    assume t: "t \<in> {ToCreate, ToFind, ToFindOne, ToUpdate, ToDelete}"
       and o: "outcome (handle E w t rq rs) = Sent d"
    from main [OF t o] obtain a1 a2 where c: "cleared (hidden w) (h_data a1)"
      and f: "forEach_hooks w (hooksFor w Post ''all'') a1 = Inr a2" and d: "d = h_data a2"
      by blast
    have "hooksFor w Post ''all'' = [] \<longrightarrow> cleared (hidden w) d"
      using c f d by auto
    with c f d show "(\<exists>a1 a2. cleared (hidden w) (h_data a1)
             \<and> forEach_hooks w (hooksFor w Post ''all'') a1 = Inr a2 \<and> d = h_data a2)
        \<and> (hooksFor w Post ''all'' = [] \<longrightarrow> cleared (hidden w) d)"
      by blast
  qed
  have cnt: "(\<forall>ty k. HideFields \<notin> set (hooksFor w0 ty k)) \<longrightarrow>
          (\<forall>hs. count E (w\<lparr>hidden := hs\<rparr>) rq rs = count E w rq rs)"
  proof (intro impI allI)
    fix hs
    assume user: "\<forall>ty k. HideFields \<notin> set (hooksFor w0 ty k)"
    have i: "''init'' \<notin> set [''create'', ''find'', ''findOne'', ''delete'', ''update'']"
      and c: "''count'' \<notin> set [''create'', ''find'', ''findOne'', ''delete'', ''update'']"
      by simp_all
    show "count E (w\<lparr>hidden := hs\<rparr>) rq rs = count E w rq rs"
      by (rule count_hidden_upd)
         (rule setupModel_no_hide [OF w user i] setupModel_no_hide [OF w user c])+
  qed
  from handlers cnt show ?thesis by blast
qed

lemma addHook_only_hooks: "\<exists>h. addHook ty a cb w = w\<lparr>hooks := h\<rparr>"
proof (induction ty a cb w rule: addHook.induct)
  case (1 ty s cb w)
  show ?case by (auto simp: setHooks_def Let_def)
next
  case (2 ty xs cb w)
  have step: "\<exists>h. fold (\<lambda>a. addHook ty a cb) ys w1 = w1\<lparr>hooks := h\<rparr>" if "set ys \<subseteq> set xs" for ys w1
    using that
  proof (induction ys arbitrary: w1)
    case Nil
    have "w1 = w1\<lparr>hooks := hooks w1\<rparr>" by simp
    then show ?case by (metis fold_simps(1))
  next
    case (Cons y ys)
    from Cons.prems have y: "y \<in> set xs" and ys: "set ys \<subseteq> set xs" by auto
    from 2 [OF refl y] obtain h1 where h1: "addHook ty y cb w1 = w1\<lparr>hooks := h1\<rparr>" by blast
    from Cons.IH [OF ys, of "w1\<lparr>hooks := h1\<rparr>"] obtain h2 where
      "fold (\<lambda>a. addHook ty a cb) ys (w1\<lparr>hooks := h1\<rparr>) = w1\<lparr>hooks := h1\<rparr>\<lparr>hooks := h2\<rparr>" by blast
    with h1 show ?case by auto
  qed
  let ?w1 = "if hooks w ty (actionKey (AList xs)) = None
             then setHooks ty (actionKey (AList xs)) [] w else w"
  from step [of xs ?w1] obtain h where "fold (\<lambda>a. addHook ty a cb) xs ?w1 = ?w1\<lparr>hooks := h\<rparr>"
    by blast
  then show ?case by (auto simp: setHooks_def Let_def)
qed

lemma addHook_fields:
  "modelName (addHook ty a cb w) = modelName w"
  "hidden (addHook ty a cb w) = hidden w"
  "statics (addHook ty a cb w) = statics w"
  "middlewares (addHook ty a cb w) = middlewares w"
  using addHook_only_hooks [of ty a cb w] by auto

lemma setupModel_result:
  "model E (addHook Post hiddenActions HideFields w0) JUndefined = Inr m \<Longrightarrow>
     \<exists>routes. setupModel E w0 = Inr (addHook Post hiddenActions HideFields w0, routes)"
  by (simp add: setupModel_def setupModelRoutes_def Let_def)

lemma testEnv_model:
  "modelName w = ''Test'' \<Longrightarrow> model testEnv w JUndefined = Inr testModel"
  by (simp add: model_def modelCall_def testEnv_sel testMapper_def testModel_def)

lemma hidingWrapper_fields:
  "modelName hidingWrapper = ''Test''" "hidden hidingWrapper = [''name'']"
  "hooksFor hidingWrapper ty k = []"
  by (simp_all add: hidingWrapper_def hide_def ModelWrapper_def hooksFor_def)

lemma restoringWrapper_fields:
  "modelName restoringWrapper = ''Test''" "hidden restoringWrapper = [''name'']"
  "hooksFor restoringWrapper ty k =
     (if ty = Post \<and> k = ''all'' then [restoreName] else [])"
  unfolding restoringWrapper_def post_def addHook_fields hooksFor_addHook hidingWrapper_fields
  by auto

lemma hiding_findOne:
  "findOne testEnv (addHook Post hiddenActions HideFields hidingWrapper)
      (testReq JUndefined [] [(''id'', JStr ''1'')]) JNull
    = \<lparr>events = [Hooks Pre ''init'', Call (DefaultModel ''Test''), Hooks Post ''init'',
                  Hooks Pre ''findOne'',
                  Call (FindOne testModel (JObj [(''_id'', JStr ''1'')]) JNull JUndefined),
                  Hooks Post ''findOne''],
        outcome = Sent (JObj [(''name'', JUndefined), (''_id'', JNum 1)])\<rparr>"
  by (simp add: findOne_def step_defs initModel_def applyHooks_def hooksToApply_hooksFor
        hooksFor_hiddenActions hidingWrapper_fields addHook_fields modelCall_def
        testEnv_sel testMapper_def testBuiltins_def testReq_def testDocs_def matches_def sameValue_def ownProps_def
        testNumber_def parseQuery_def parseQueryFilter_def parseQueryPopulate_def
        parseQueryProjection_def parseQueryOptions_unfold populateArg_def js_or_def
        testModel_def hideFields_def Let_def)

lemma restoring_findOne:
  "findOne testEnv (addHook Post hiddenActions HideFields restoringWrapper)
      (testReq JUndefined [] [(''id'', JStr ''1'')]) JNull
    = \<lparr>events = [Hooks Pre ''init'', Call (DefaultModel ''Test''), Hooks Post ''init'',
                  Hooks Pre ''findOne'',
                  Call (FindOne testModel (JObj [(''_id'', JStr ''1'')]) JNull JUndefined),
                  Hooks Post ''findOne''],
        outcome = Sent (JObj [(''name'', JStr ''restored''), (''_id'', JNum 1)])\<rparr>"
  by (simp add: findOne_def step_defs initModel_def applyHooks_def hooksToApply_hooksFor
        hooksFor_hiddenActions restoringWrapper_fields addHook_fields modelCall_def
        testEnv_sel testMapper_def testBuiltins_def testReq_def testDocs_def matches_def sameValue_def ownProps_def
        testNumber_def parseQuery_def parseQueryFilter_def parseQueryPopulate_def
        parseQueryProjection_def parseQueryOptions_unfold populateArg_def js_or_def
        testModel_def hideFields_def restoreName_def Let_def)

theorem hidden_fields_cleared_before_catch_all_witness:
  "(\<exists>routes. setupModel testEnv hidingWrapper
       = Inr (addHook Post hiddenActions HideFields hidingWrapper, routes))
   \<and> hidden (addHook Post hiddenActions HideFields hidingWrapper) = [''name'']
   \<and> outcome (handle testEnv (addHook Post hiddenActions HideFields hidingWrapper) ToFindOne
         (testReq JUndefined [] [(''id'', JStr ''1'')]) JNull)
       = Sent (JObj [(''name'', JUndefined), (''_id'', JNum 1)])
   \<and> cleared (hidden (addHook Post hiddenActions HideFields hidingWrapper))
         (JObj [(''name'', JUndefined), (''_id'', JNum 1)])
   \<and> count testEnv ((addHook Post hiddenActions HideFields hidingWrapper)\<lparr>hidden := []\<rparr>)
         (testReq JUndefined [] [(''id'', JStr ''1'')]) JNull
       = count testEnv (addHook Post hiddenActions HideFields hidingWrapper)
         (testReq JUndefined [] [(''id'', JStr ''1'')]) JNull"
proof -
  let ?w = "addHook Post hiddenActions HideFields hidingWrapper"
  let ?rq = "testReq JUndefined [] [(''id'', JStr ''1'')]"
  let ?d = "JObj [(''name'', JUndefined), (''_id'', JNum 1)]"
  have "model testEnv ?w JUndefined = Inr testModel"
    by (rule testEnv_model) (simp add: addHook_fields hidingWrapper_fields)
  from setupModel_result [OF this]
  obtain routes where s: "setupModel testEnv hidingWrapper = Inr (?w, routes)" by blast
  note T = hidden_fields_cleared_before_catch_all [OF s, of ?rq JNull]
  have h: "hidden ?w = [''name'']" by (simp add: addHook_fields hidingWrapper_fields)
  have o: "outcome (handle testEnv ?w ToFindOne ?rq JNull) = Sent ?d"
    by (simp add: hiding_findOne)
  have noall: "hooksFor ?w Post ''all'' = []"
    by (simp add: hooksFor_hiddenActions hidingWrapper_fields)
  have c: "cleared (hidden ?w) ?d"
    using T [THEN conjunct1, rule_format, of ToFindOne ?d] o noall by blast
  have n: "count testEnv (?w\<lparr>hidden := []\<rparr>) ?rq JNull = count testEnv ?w ?rq JNull"
    using T [THEN conjunct2] by (simp add: hidingWrapper_fields)
  from s h o c n show ?thesis by blast
qed

theorem catch_all_hook_restores_hidden_field_counterexample:
  "(\<exists>routes. setupModel testEnv restoringWrapper
       = Inr (addHook Post hiddenActions HideFields restoringWrapper, routes))
   \<and> hidden (addHook Post hiddenActions HideFields restoringWrapper) = [''name'']
   \<and> outcome (findOne testEnv (addHook Post hiddenActions HideFields restoringWrapper)
         (testReq JUndefined [] [(''id'', JStr ''1'')]) JNull)
       = Sent (JObj [(''name'', JStr ''restored''), (''_id'', JNum 1)])
   \<and> getp (JObj [(''name'', JStr ''restored''), (''_id'', JNum 1)]) ''name'' \<noteq> JUndefined"
proof -
  let ?w = "addHook Post hiddenActions HideFields restoringWrapper"
  have "model testEnv ?w JUndefined = Inr testModel"
    by (rule testEnv_model) (simp add: addHook_fields restoringWrapper_fields)
  from setupModel_result [OF this]
  have s: "\<exists>routes. setupModel testEnv restoringWrapper = Inr (?w, routes)" .
  have h: "hidden ?w = [''name'']" by (simp add: addHook_fields restoringWrapper_fields)
  from s h show ?thesis by (simp add: restoring_findOne)
qed

end
